theory Spec2Isabelle
  imports Complex_Main
begin

section \<open>JavaScript values shared by the models\<close>

text \<open>
  The sources are TypeScript and browser JavaScript. Numbers are IEEE-754 doubles: a
  finite double is modelled as the rational it denotes (so \<open>-0\<close> is not told from
  \<open>0\<close>), and every arithmetic operation is the exact operation on rationals followed
  by \<open>to_double\<close>, the rounding to the nearest double with ties to the even
  significand, gradual underflow, and overflow to an infinity. Strings are HOL
  strings, one \<open>char\<close> for each code unit (below 256).
\<close>

datatype jsnum = Num rat | PosInfinity | NegInfinity | NaN

fun bit_length :: "nat \<Rightarrow> nat" where
  \<comment> \<open>The number of binary digits of \<open>n\<close>.\<close>
  "bit_length n = (if n = 0 then 0 else Suc (bit_length (n div 2)))"

declare bit_length.simps [simp del]

definition binary_exponent :: "rat \<Rightarrow> int" where
  \<comment> \<open>For \<open>a > 0\<close>, the \<open>e\<close> with \<open>2 ^ e \<le> a < 2 ^ (e + 1)\<close>.\<close>
  "binary_exponent a =
     (if 1 \<le> a then int (bit_length (nat \<lfloor>a\<rfloor>)) - 1
      else - int (bit_length (nat (\<lceil>1 / a\<rceil> - 1))))"

definition round_half_even :: "rat \<Rightarrow> int" where
  "round_half_even m =
     (let f = \<lfloor>m\<rfloor>; d = m - of_int f
      in if d < 1 / 2 then f else if 1 / 2 < d then f + 1
         else if even f then f else f + 1)"

definition to_double :: "rat \<Rightarrow> jsnum" where
  \<comment> \<open>A double has 53 significant bits, so the last place of a number with binary
      exponent \<open>e\<close> is \<open>2 ^ (e - 52)\<close>, and never below \<open>2 ^ (- 1074)\<close>; the largest
      double is below \<open>2 ^ 1024\<close>.\<close>
  "to_double x =
     (if x = 0 then Num 0
      else
        (let a = \<bar>x\<bar>;
             q = max (binary_exponent a - 52) (- 1074);
             r = of_int (round_half_even (a / 2 powi q)) * 2 powi q
         in if 2 ^ 1024 \<le> r then (if 0 < x then PosInfinity else NegInfinity)
            else Num (if 0 < x then r else - r)))"

fun js_negative :: "jsnum \<Rightarrow> bool" where
  "js_negative (Num x) = (x < 0)"
| "js_negative NegInfinity = True"
| "js_negative a = False"

definition js_infinity :: "bool \<Rightarrow> jsnum" where
  "js_infinity negative = (if negative then NegInfinity else PosInfinity)"

fun js_add :: "jsnum \<Rightarrow> jsnum \<Rightarrow> jsnum" where
  \<comment> \<open>\<open>a + b\<close> on numbers\<close>
  "js_add (Num x) (Num y) = to_double (x + y)"
| "js_add NaN b = NaN"
| "js_add a NaN = NaN"
| "js_add PosInfinity NegInfinity = NaN"
| "js_add NegInfinity PosInfinity = NaN"
| "js_add PosInfinity b = PosInfinity"
| "js_add a PosInfinity = PosInfinity"
| "js_add NegInfinity b = NegInfinity"
| "js_add a NegInfinity = NegInfinity"

fun js_sub :: "jsnum \<Rightarrow> jsnum \<Rightarrow> jsnum" where
  \<comment> \<open>\<open>a - b\<close>\<close>
  "js_sub (Num x) (Num y) = to_double (x - y)"
| "js_sub NaN b = NaN"
| "js_sub a NaN = NaN"
| "js_sub PosInfinity PosInfinity = NaN"
| "js_sub NegInfinity NegInfinity = NaN"
| "js_sub PosInfinity b = PosInfinity"
| "js_sub a PosInfinity = NegInfinity"
| "js_sub NegInfinity b = NegInfinity"
| "js_sub a NegInfinity = PosInfinity"

fun js_mul :: "jsnum \<Rightarrow> jsnum \<Rightarrow> jsnum" where
  \<comment> \<open>\<open>a * b\<close>: zero times an infinity is NaN.\<close>
  "js_mul (Num x) (Num y) = to_double (x * y)"
| "js_mul NaN b = NaN"
| "js_mul a NaN = NaN"
| "js_mul (Num x) b =
     (if x = 0 then NaN else js_infinity (js_negative (Num x) \<noteq> js_negative b))"
| "js_mul a (Num y) =
     (if y = 0 then NaN else js_infinity (js_negative a \<noteq> js_negative (Num y)))"
| "js_mul a b = js_infinity (js_negative a \<noteq> js_negative b)"

fun js_div :: "jsnum \<Rightarrow> jsnum \<Rightarrow> jsnum" where
  \<comment> \<open>\<open>a / b\<close>: a zero divisor (the \<open>+0\<close> a sum gives) makes an infinity or NaN, never
      an error.\<close>
  "js_div (Num x) (Num y) =
     (if y \<noteq> 0 then to_double (x / y)
      else if 0 < x then PosInfinity else if x < 0 then NegInfinity else NaN)"
| "js_div NaN b = NaN"
| "js_div a NaN = NaN"
| "js_div (Num x) b = Num 0"
| "js_div a (Num y) = js_infinity (js_negative a \<noteq> js_negative (Num y))"
| "js_div a b = NaN"

fun Math_round :: "jsnum \<Rightarrow> jsnum" where
  \<comment> \<open>\<open>Math.round\<close>: the nearest integer, halves going up; the result is a double.\<close>
  "Math_round (Num x) = Num (of_int \<lfloor>x + 1 / 2\<rfloor>)"
| "Math_round PosInfinity = PosInfinity"
| "Math_round NegInfinity = NegInfinity"
| "Math_round NaN = NaN"

fun js_ge :: "jsnum \<Rightarrow> rat \<Rightarrow> bool" where
  \<comment> \<open>\<open>x >= y\<close> with a finite right-hand side; every comparison with NaN is false.\<close>
  "js_ge (Num x) y = (y \<le> x)"
| "js_ge PosInfinity y = True"
| "js_ge NegInfinity y = False"
| "js_ge NaN y = False"

definition num_or :: "rat option \<Rightarrow> rat \<Rightarrow> rat" where
  \<comment> \<open>\<open>x || d\<close> for an optional number: \<open>undefined\<close> and \<open>0\<close> are both falsy.\<close>
  "num_or x d = (case x of None \<Rightarrow> d | Some v \<Rightarrow> if v = 0 then d else v)"

datatype jsval = JUndefined | JNull | JBool bool | JNumber rat | JString string | JObject

fun truthy :: "jsval \<Rightarrow> bool" where
  \<comment> \<open>What \<open>!v\<close>, \<open>v && w\<close> and \<open>v || w\<close> test. \<open>JObject\<close> stands for any object or
      array.\<close>
  "truthy JUndefined = False"
| "truthy JNull = False"
| "truthy (JBool b) = b"
| "truthy (JNumber n) = (n \<noteq> 0)"
| "truthy (JString s) = (s \<noteq> [])"
| "truthy JObject = True"

text \<open>
  A \<open>fetch\<close> call is logged as the request it sends. The payload is the object handed
  to \<open>JSON.stringify\<close>: \<open>{}\<close> or \<open>{session_id, message}\<close>.
\<close>

datatype json_body = EmptyObject | MessageObject jsval string

record http_request =
  url :: string
  http_method :: string
  content_type :: string
  payload :: json_body

record dom_event =
  defaultPrevented :: bool

record toast_message =
  title :: string
  description :: string


section \<open>The React marketplace page\<close>

subsection \<open>types/property.ts\<close>

datatype property_type = SingleFamily | Condo | Townhouse | MultiFamily

fun property_type_text :: "property_type \<Rightarrow> string" where
  "property_type_text SingleFamily = ''single-family''"
| "property_type_text Condo = ''condo''"
| "property_type_text Townhouse = ''townhouse''"
| "property_type_text MultiFamily = ''multi-family''"

record Property =
  pid :: string
  address :: string
  city :: string
  state :: string
  zip_code :: string
  beds :: rat
  baths :: rat
  sqft :: rat
  price :: rat
  arv :: rat
  rehabEstimate :: rat
  days_on_market :: rat
  equityScore :: rat
  lat :: rat
  lng :: rat
  needsWork :: bool
  propertyType :: property_type

text \<open>
  A number field holds the number its literal denotes; \<open>price\<close>, \<open>arv\<close> and
  \<open>rehabEstimate\<close>, the ones computed with, are taken to be doubles. Optional fields of \<open>SearchFilters\<close> are
  options; \<open>None\<close> is \<open>undefined\<close>.
\<close>

record SearchFilters =
  flt_city :: "string option"
  flt_zip :: "string option"
  flt_state :: string
  priceMin :: "rat option"
  priceMax :: "rat option"
  flt_beds :: "rat option"
  flt_propertyType :: "string option"
  flt_needsWork :: "bool option"
  marginMin :: "rat option"
  daysOnMarketMax :: "rat option"

subsection \<open>data/mockData.ts\<close>

definition mockProperties :: "Property list" where
  "mockProperties =
    [\<lparr>pid = ''1'', address = ''123 Main St'', city = ''Austin'', state = ''TX'',
      zip_code = ''73301'', beds = 3, baths = 2, sqft = 1850, price = 285000,
      arv = 365000, rehabEstimate = 45000, days_on_market = 14, equityScore = 87,
      lat = 30.2672, lng = - 97.7431, needsWork = True, propertyType = SingleFamily\<rparr>,
     \<lparr>pid = ''2'', address = ''456 Oak Ave'', city = ''Dallas'', state = ''TX'',
      zip_code = ''75201'', beds = 4, baths = 3, sqft = 2340, price = 425000,
      arv = 520000, rehabEstimate = 28000, days_on_market = 7, equityScore = 92,
      lat = 32.7767, lng = - 96.7970, needsWork = False, propertyType = SingleFamily\<rparr>,
     \<lparr>pid = ''3'', address = ''789 Pine Rd'', city = ''Houston'', state = ''TX'',
      zip_code = ''77001'', beds = 2, baths = 1, sqft = 1200, price = 195000,
      arv = 285000, rehabEstimate = 52000, days_on_market = 28, equityScore = 74,
      lat = 29.7604, lng = - 95.3698, needsWork = True, propertyType = Condo\<rparr>,
     \<lparr>pid = ''4'', address = ''321 Elm St'', city = ''San Antonio'', state = ''TX'',
      zip_code = ''78201'', beds = 3, baths = 2, sqft = 1650, price = 235000,
      arv = 315000, rehabEstimate = 35000, days_on_market = 21, equityScore = 81,
      lat = 29.4241, lng = - 98.4936, needsWork = True, propertyType = Townhouse\<rparr>]"

subsection \<open>JSON.stringify on an array of strings\<close>

definition hex_digit :: "nat \<Rightarrow> char" where
  "hex_digit n = ''0123456789abcdef'' ! (n mod 16)"

definition json_escape :: "char \<Rightarrow> string" where
  \<comment> \<open>The escapes \<open>JSON.stringify\<close> writes inside a string literal.\<close>
  "json_escape c =
     (let n = (of_char c :: nat) in
      if n = 0x22 then [CHR 0x5C, CHR 0x22]
      else if n = 0x5C then [CHR 0x5C, CHR 0x5C]
      else if n = 0x08 then [CHR 0x5C, CHR ''b'']
      else if n = 0x0C then [CHR 0x5C, CHR ''f'']
      else if n = 0x0A then [CHR 0x5C, CHR ''n'']
      else if n = 0x0D then [CHR 0x5C, CHR ''r'']
      else if n = 0x09 then [CHR 0x5C, CHR ''t'']
      else if n < 0x20 then [CHR 0x5C, CHR ''u'', CHR ''0'', CHR ''0'',
                             hex_digit (n div 16), hex_digit n]
      else [c])"

definition json_string :: "string \<Rightarrow> string" where
  "json_string s = [CHR 0x22] @ concat (map json_escape s) @ [CHR 0x22]"

fun join_comma :: "string list \<Rightarrow> string" where
  "join_comma [] = []"
| "join_comma [x] = x"
| "join_comma (x # y # ys) = x @ '','' @ join_comma (y # ys)"

definition JSON_stringify :: "string list \<Rightarrow> string" where
  "JSON_stringify xs = ''['' @ join_comma (map json_string xs) @ '']''"

subsection \<open>pages/Marketplace.tsx\<close>

text \<open>
  The component's four \<open>useState\<close> cells, with the two effects a handler has outside
  them: the browser's \<open>localStorage\<close> (a map from keys to texts, with no quota) and
  the toasts raised.
\<close>

record marketplace =
  filters :: SearchFilters
  properties :: "Property list"
  savedProperties :: "string list"
  sortBy :: string
  localStorage :: "string \<rightharpoonup> string"
  toasts :: "toast_message list"

definition default_filters :: SearchFilters where
  "default_filters =
     \<lparr>flt_city = None, flt_zip = None, flt_state = ''TX'', priceMin = Some 0,
      priceMax = Some 1000000, flt_beds = None, flt_propertyType = None,
      flt_needsWork = None, marginMin = Some 10, daysOnMarketMax = Some 90\<rparr>"

definition mount :: "(string \<rightharpoonup> string) \<Rightarrow> string list option \<Rightarrow> marketplace" where
  \<comment> \<open>The first render and the mount effect. The second argument is what
      \<open>JSON.parse\<close> made of the stored \<open>savedProperties\<close> item, \<open>None\<close> when the item
      is absent or empty.\<close>
  "mount store saved =
     \<lparr>filters = default_filters, properties = mockProperties,
      savedProperties = (case saved of None \<Rightarrow> [] | Some xs \<Rightarrow> xs),
      sortBy = ''equity-score'', localStorage = store, toasts = []\<rparr>"

definition calculateMargin :: "Property \<Rightarrow> jsnum" where
  \<comment> \<open>\<open>0.08\<close> is the double nearest to the literal.\<close>
  "calculateMargin property =
     (let totalCost =
            js_add (js_add (Num (price property)) (Num (rehabEstimate property)))
                   (js_mul (Num (price property)) (to_double 0.08))
      in Math_round
           (js_mul (js_div (js_sub (Num (arv property)) totalCost) totalCost) (Num 100)))"

definition handleSaveProperty :: "string \<Rightarrow> marketplace \<Rightarrow> marketplace" where
  "handleSaveProperty propertyId m =
     (let newSaved =
            (if propertyId \<in> set (savedProperties m)
             then filter (\<lambda>i. i \<noteq> propertyId) (savedProperties m)
             else savedProperties m @ [propertyId])
      in m\<lparr>savedProperties := newSaved,
            localStorage := (localStorage m)(''savedProperties'' \<mapsto> JSON_stringify newSaved),
            toasts := toasts m @
              [if propertyId \<in> set (savedProperties m)
               then \<lparr>title = ''Property removed'',
                     description = ''Removed from your saved properties''\<rparr>
               else \<lparr>title = ''Property saved'',
                     description = ''Added to your saved properties''\<rparr>]\<rparr>)"

definition passes_filters :: "SearchFilters \<Rightarrow> Property \<Rightarrow> bool" where
  \<comment> \<open>The callback given to \<open>properties.filter\<close>. \<open>!filters.beds\<close> holds for
      \<open>undefined\<close> and for \<open>0\<close>, \<open>!filters.propertyType\<close> for \<open>undefined\<close> and for
      the empty string.\<close>
  "passes_filters f property =
     (let margin = calculateMargin property in
      state property = flt_state f \<and>
      price property \<ge> num_or (priceMin f) 0 \<and>
      price property \<le> num_or (priceMax f) 1000000 \<and>
      (case flt_beds f of None \<Rightarrow> True | Some b \<Rightarrow> b = 0 \<or> beds property \<ge> b) \<and>
      (case flt_propertyType f of None \<Rightarrow> True
       | Some t \<Rightarrow> t = [] \<or> property_type_text (propertyType property) = t) \<and>
      (case flt_needsWork f of None \<Rightarrow> True | Some w \<Rightarrow> needsWork property = w) \<and>
      js_ge margin (num_or (marginMin f) 0) \<and>
      days_on_market property \<le> num_or (daysOnMarketMax f) 90)"

definition filteredProperties :: "marketplace \<Rightarrow> Property list" where
  "filteredProperties m = filter (passes_filters (filters m)) (properties m)"

text \<open>Every handler the page binds to a control, as an event.\<close>

datatype marketplace_event =
    SetCity string
  | SetState string
  | SetPriceRange rat rat
  | SetBeds rat
  | SetPropertyType string
  | SetNeedsWork bool
  | SetMarginMin rat
  | SetDaysOnMarketMax rat
  | SetSortBy string
  | ClickSave string
  | ResetFilters

fun handle :: "marketplace_event \<Rightarrow> marketplace \<Rightarrow> marketplace" where
  "handle (SetCity v) m = m\<lparr>filters := (filters m)\<lparr>flt_city := Some v\<rparr>\<rparr>"
| "handle (SetState v) m = m\<lparr>filters := (filters m)\<lparr>flt_state := v\<rparr>\<rparr>"
| "handle (SetPriceRange lo hi) m =
     m\<lparr>filters := (filters m)\<lparr>priceMin := Some lo, priceMax := Some hi\<rparr>\<rparr>"
| "handle (SetBeds v) m = m\<lparr>filters := (filters m)\<lparr>flt_beds := Some v\<rparr>\<rparr>"
| "handle (SetPropertyType v) m = m\<lparr>filters := (filters m)\<lparr>flt_propertyType := Some v\<rparr>\<rparr>"
| "handle (SetNeedsWork v) m = m\<lparr>filters := (filters m)\<lparr>flt_needsWork := Some v\<rparr>\<rparr>"
| "handle (SetMarginMin v) m = m\<lparr>filters := (filters m)\<lparr>marginMin := Some v\<rparr>\<rparr>"
| "handle (SetDaysOnMarketMax v) m =
     m\<lparr>filters := (filters m)\<lparr>daysOnMarketMax := Some v\<rparr>\<rparr>"
| "handle (SetSortBy v) m = m\<lparr>sortBy := v\<rparr>"
| "handle (ClickSave i) m = handleSaveProperty i m"
| "handle ResetFilters m = m\<lparr>filters := default_filters\<rparr>"

fun run :: "marketplace_event list \<Rightarrow> marketplace \<Rightarrow> marketplace" where
  "run [] m = m"
| "run (e # es) m = run es (handle e m)"


section \<open>The agent-connect lead form\<close>

subsection \<open>pages/AgentConnect.tsx\<close>

record lead_form =
  fullName :: string
  email :: string
  phone :: string
  form_city :: string
  timeline :: string

text \<open>
  The page state: the \<open>useState\<close> cell, the toasts raised, and the log of the
  requests the page has sent.
\<close>

record agent_connect =
  formData :: lead_form
  raised :: "toast_message list"
  requests :: "http_request list"

definition handleSubmit :: "dom_event \<Rightarrow> agent_connect \<Rightarrow> dom_event \<times> agent_connect" where
  "handleSubmit e a =
     (e\<lparr>defaultPrevented := True\<rparr>,
      a\<lparr>raised := raised a @
         [\<lparr>title = ''Request submitted'',
           description = ''We'll connect you with a qualified agent within 24 hours.''\<rparr>]\<rparr>)"


section \<open>Page routing in the vanilla scripts\<close>

subsection \<open>The document and the browser\<close>

text \<open>
  The document is the list of its elements in document order, each with the attributes
  the scripts read or write: \<open>id\<close>, \<open>classList\<close>, \<open>data-page\<close> and
  \<open>style.display\<close>.
\<close>

record element =
  element_id :: "string option"
  classList :: "string list"
  data_page :: "string option"
  style_display :: string

definition has_class :: "string \<Rightarrow> element \<Rightarrow> bool" where
  "has_class c e = (c \<in> set (classList e))"

definition classList_add :: "string \<Rightarrow> element \<Rightarrow> element" where
  "classList_add c e =
     e\<lparr>classList := (if c \<in> set (classList e) then classList e else classList e @ [c])\<rparr>"

definition classList_remove :: "string \<Rightarrow> element \<Rightarrow> element" where
  "classList_remove c e = e\<lparr>classList := removeAll c (classList e)\<rparr>"

fun first_index :: "('a \<Rightarrow> bool) \<Rightarrow> 'a list \<Rightarrow> nat option" where
  "first_index P [] = None"
| "first_index P (x # xs) = (if P x then Some 0 else map_option Suc (first_index P xs))"

definition getElementById :: "string \<Rightarrow> element list \<Rightarrow> nat option" where
  \<comment> \<open>The position of the first element with that id; the empty id matches nothing.\<close>
  "getElementById i doc =
     (if i = [] then None else first_index (\<lambda>e. element_id e = Some i) doc)"

definition for_each_of_class :: "string \<Rightarrow> (element \<Rightarrow> element) \<Rightarrow> element list \<Rightarrow> element list" where
  \<comment> \<open>\<open>document.querySelectorAll('.c').forEach(f)\<close>\<close>
  "for_each_of_class c f doc = map (\<lambda>e. if has_class c e then f e else e) doc"

text \<open>
  Two things the scripts leave to the browser are parameters of the model:
  \<open>css_attribute_value s\<close> is the attribute value that the selector text
  \<open>[data-page="s"]\<close> denotes to the CSS parser, \<open>None\<close> when the text is not a valid
  selector and \<open>querySelector\<close> throws; \<open>native_text k\<close> is the string the engine
  gives for the member \<open>k\<close> of \<open>Object.prototype\<close>.
\<close>

record browser =
  css_attribute_value :: "string \<Rightarrow> string option"
  native_text :: "string \<Rightarrow> string"

subsection \<open>Reading a property of an object literal\<close>

datatype property_value = Text string | Builtin string | Undefined

definition Object_prototype :: "string list" where
  \<comment> \<open>The members every object literal inherits.\<close>
  "Object_prototype =
     [''constructor'', ''hasOwnProperty'', ''isPrototypeOf'', ''propertyIsEnumerable'',
      ''toLocaleString'', ''toString'', ''valueOf'', ''__proto__'',
      ''__defineGetter__'', ''__defineSetter__'', ''__lookupGetter__'',
      ''__lookupSetter__'']"

definition property_get :: "(string \<times> string) list \<Rightarrow> string \<Rightarrow> property_value" where
  \<comment> \<open>\<open>obj[k]\<close>: an own property first, then the prototype, else \<open>undefined\<close>.\<close>
  "property_get obj k =
     (case map_of obj k of
        Some v \<Rightarrow> Text v
      | None \<Rightarrow> if k \<in> set Object_prototype then Builtin k else Undefined)"

fun property_truthy :: "property_value \<Rightarrow> bool" where
  "property_truthy (Text v) = (v \<noteq> [])"
| "property_truthy (Builtin k) = True"
| "property_truthy Undefined = False"

definition value_or :: "property_value \<Rightarrow> property_value \<Rightarrow> property_value" where
  \<comment> \<open>\<open>a || b\<close>\<close>
  "value_or a b = (if property_truthy a then a else b)"

fun id_text :: "browser \<Rightarrow> property_value \<Rightarrow> string" where
  \<comment> \<open>The string \<open>getElementById\<close> makes of its argument.\<close>
  "id_text b (Text v) = v"
| "id_text b (Builtin k) = native_text b k"
| "id_text b Undefined = ''undefined''"

subsection \<open>vanilla/script.js\<close>

definition vanilla_pages :: "(string \<times> string) list" where
  "vanilla_pages =
     [(''home'', ''home-page''),
      (''marketplace'', ''marketplace-page''),
      (''analyzer'', ''analyzer-page''),
      (''agent-connect'', ''agent-connect-page''),
      (''pricing'', ''pricing-page''),
      (''signin'', ''signin-page''),
      (''signup'', ''signup-page'')]"

text \<open>
  What the script's closure holds and changes: the document, \<open>currentPage\<close>, whether
  the \<open>lucide\<close> global is defined, and how many \<open>createIcons\<close> timeouts are scheduled.
\<close>

record router =
  document :: "element list"
  currentPage :: string
  lucide :: bool
  icon_timers :: nat

definition vanilla_target :: "browser \<Rightarrow> string \<Rightarrow> string" where
  \<comment> \<open>\<open>pages[pageId] || pages['home']\<close>, as \<open>getElementById\<close> reads it.\<close>
  "vanilla_target b pageId =
     id_text b (value_or (property_get vanilla_pages pageId)
                         (property_get vanilla_pages ''home''))"

definition vanilla_showPage :: "browser \<Rightarrow> string \<Rightarrow> router \<Rightarrow> router" where
  \<comment> \<open>When the selector is invalid \<open>querySelector\<close> throws, and the state is the one
      reached at that line.\<close>
  "vanilla_showPage b pageId r =
     (let d1 = for_each_of_class ''page'' (classList_remove ''active'') (document r);
          targetPage = getElementById (vanilla_target b pageId) d1;
          d2 = (case targetPage of
                  None \<Rightarrow> d1
                | Some i \<Rightarrow> d1[i := classList_add ''active'' (d1 ! i)]);
          d3 = for_each_of_class ''nav-link'' (classList_remove ''active'') d2
      in case css_attribute_value b pageId of
           None \<Rightarrow> r\<lparr>document := d3\<rparr>
         | Some v \<Rightarrow>
             (let activeLink = first_index (\<lambda>e. data_page e = Some v) d3;
                  d4 = (case activeLink of
                          None \<Rightarrow> d3
                        | Some i \<Rightarrow>
                            if has_class ''nav-link'' (d3 ! i)
                            then d3[i := classList_add ''active'' (d3 ! i)]
                            else d3)
              in r\<lparr>document := d4, currentPage := pageId,
                   icon_timers := (if lucide r then Suc (icon_timers r) else icon_timers r)\<rparr>))"

text \<open>
  A click carries the \<open>data-page\<close> attributes of its target and of the target's
  ancestors, innermost first: \<open>closest('[data-page]')\<close> is the first that is present.
\<close>

record click_event = dom_event +
  data_page_path :: "string option list"

definition vanilla_click :: "browser \<Rightarrow> click_event \<Rightarrow> router \<Rightarrow> click_event \<times> router" where
  "vanilla_click b e r =
     (case List.find (\<lambda>a. a \<noteq> None) (data_page_path e) of
        Some (Some pageId) \<Rightarrow> (e\<lparr>defaultPrevented := True\<rparr>, vanilla_showPage b pageId r)
      | _ \<Rightarrow> (e, r))"

subsection \<open>frontend/script.js\<close>

definition frontend_pages :: "(string \<times> string) list" where
  "frontend_pages =
     [(''home'', ''home-page''),
      (''marketplace'', ''marketplace-page''),
      (''analyzer'', ''analyzer-page''),
      (''agent-connect'', ''agent-connect-page''),
      (''pricing'', ''pricing-page''),
      (''signin'', ''signin-page''),
      (''signup'', ''signup-page'')]"

definition frontend_target :: "browser \<Rightarrow> string \<Rightarrow> string" where
  "frontend_target b pageId =
     id_text b (value_or (property_get frontend_pages pageId)
                         (property_get frontend_pages ''home''))"

definition frontend_showPage :: "browser \<Rightarrow> string \<Rightarrow> router \<Rightarrow> router" where
  "frontend_showPage b pageId r =
     (let d1 = for_each_of_class ''page'' (classList_remove ''active'') (document r);
          targetPage = getElementById (frontend_target b pageId) d1;
          d2 = (case targetPage of
                  None \<Rightarrow> d1
                | Some i \<Rightarrow> d1[i := classList_add ''active'' (d1 ! i)]);
          d3 = for_each_of_class ''nav-link'' (classList_remove ''active'') d2
      in case css_attribute_value b pageId of
           None \<Rightarrow> r\<lparr>document := d3\<rparr>
         | Some v \<Rightarrow>
             (let activeLink = first_index (\<lambda>e. data_page e = Some v) d3;
                  d4 = (case activeLink of
                          None \<Rightarrow> d3
                        | Some i \<Rightarrow>
                            if has_class ''nav-link'' (d3 ! i)
                            then d3[i := classList_add ''active'' (d3 ! i)]
                            else d3)
              in r\<lparr>document := d4, currentPage := pageId,
                   icon_timers := (if lucide r then Suc (icon_timers r) else icon_timers r)\<rparr>))"

subsection \<open>vanilla/script_new.js\<close>

definition new_pages :: "(string \<times> string) list" where
  "new_pages =
     [(''home'', ''home-page''),
      (''marketplace'', ''marketplace-page''),
      (''property-details'', ''property-details-page'')]"

text \<open>
  Here \<open>showPage\<close> also receives \<open>null\<close>, from a navigation link without the
  attribute, so its argument is an option; as a property key \<open>null\<close> reads
  \<open>"null"\<close>. \<open>renderProperties\<close> rewrites the inside of the \<open>properties-grid\<close>
  element: the model counts the rewrites, and its document lists the elements outside
  that grid.
\<close>

record router_new =
  new_document :: "element list"
  new_currentPage :: "string option"
  new_lucide :: bool
  icons_created :: nat
  grid_renders :: nat

definition key_text :: "string option \<Rightarrow> string" where
  "key_text k = (case k of None \<Rightarrow> ''null'' | Some s \<Rightarrow> s)"

definition renderProperties :: "router_new \<Rightarrow> router_new" where
  "renderProperties r =
     (case getElementById ''properties-grid'' (new_document r) of
        None \<Rightarrow> r
      | Some i \<Rightarrow> r\<lparr>grid_renders := Suc (grid_renders r)\<rparr>)"

definition new_target :: "browser \<Rightarrow> string option \<Rightarrow> string" where
  "new_target b pageId =
     id_text b (value_or (property_get new_pages (key_text pageId))
                         (property_get new_pages ''home''))"

definition new_showPage :: "browser \<Rightarrow> string option \<Rightarrow> router_new \<Rightarrow> router_new" where
  "new_showPage b pageId r =
     (let d1 = for_each_of_class ''page'' (\<lambda>e. e\<lparr>style_display := ''none''\<rparr>) (new_document r);
          targetPageId = new_target b pageId;
          targetPage = getElementById targetPageId d1;
          r1 = (case targetPage of
                  None \<Rightarrow> r\<lparr>new_document := d1\<rparr>
                | Some i \<Rightarrow>
                    (let r' = r\<lparr>new_document := d1[i := (d1 ! i)\<lparr>style_display := ''block''\<rparr>],
                                new_currentPage := pageId\<rparr>
                     in if pageId = Some ''marketplace'' then renderProperties r' else r'))
      in if new_lucide r1 then r1\<lparr>icons_created := Suc (icons_created r1)\<rparr> else r1)"


section \<open>The chatbot widget\<close>

subsection \<open>frontend/script.js, class ChatbotManager\<close>

text \<open>
  \<open>this.elements\<close>: of each element of the widget, what the class reads or writes.
  The transcript holds the role and the content of every message added; the markup
  \<open>formatMessage\<close> makes of the content, the time stamp, the icons, focus, heights
  and scroll positions are not modelled.
\<close>

record widget =
  toggle_active :: bool
  window_hidden :: bool
  window_visible :: bool
  messages :: "(string \<times> string) list"
  input_value :: string
  send_disabled :: bool
  typing_display :: string
  notification_display :: string

text \<open>
  The parsed body of a reply, \<open>data\<close>, with the four fields the class reads; a field
  the body lacks is \<open>JUndefined\<close>.
\<close>

record chat_reply =
  session_id :: jsval
  message :: jsval
  completed :: jsval
  preferences_collected :: jsval

text \<open>
  How an awaited \<open>fetch\<close> ends: the promise rejects, or a response arrives with its
  \<open>ok\<close> flag and its body, \<open>None\<close> when the body is not JSON or is \<open>null\<close> (reading a
  field of it throws).
\<close>

datatype fetch_result = Rejected | Response bool "chat_reply option"

text \<open>
  An \<open>async\<close> method runs to its \<open>await\<close> and is resumed when the fetch ends; other
  handlers run in between. The state lists the suspended calls and the pending
  \<open>setTimeout\<close> callbacks.
\<close>

datatype call = StartCall | MessageCall

datatype timer = ShowWindow | HideWindow | Handoff | Notify

record chatbot =
  apiBaseUrl :: string
  sessionId :: jsval
  isOpen :: bool
  isTyping :: bool
  elements :: widget
  sent :: "http_request list"
  awaiting :: "call list"
  timers :: "timer list"

definition ChatbotManager :: "widget \<Rightarrow> chatbot" where
  \<comment> \<open>The constructor, given the widget as the page has it.\<close>
  "ChatbotManager w =
     \<lparr>apiBaseUrl = ''http://localhost:8001'', sessionId = JNull, isOpen = False,
      isTyping = False, elements = w, sent = [], awaiting = [], timers = []\<rparr>"

definition initializeChatbot :: "widget \<Rightarrow> chatbot" where
  "initializeChatbot w = (ChatbotManager w)\<lparr>timers := [Notify]\<rparr>"

definition append_message :: "string \<Rightarrow> string \<Rightarrow> chatbot \<Rightarrow> chatbot" where
  "append_message role content c =
     c\<lparr>elements := (elements c)\<lparr>messages := messages (elements c) @ [(role, content)]\<rparr>\<rparr>"

definition addMessage :: "string \<Rightarrow> jsval \<Rightarrow> chatbot \<Rightarrow> chatbot option" where
  \<comment> \<open>\<open>formatMessage\<close> calls \<open>content.replace\<close>, which only a string has: any other
      content throws a TypeError before anything is appended (\<open>None\<close>).\<close>
  "addMessage role content c =
     (case content of JString s \<Rightarrow> Some (append_message role s c) | _ \<Rightarrow> None)"

definition showTyping :: "chatbot \<Rightarrow> chatbot" where
  "showTyping c =
     c\<lparr>isTyping := True,
       elements := (elements c)\<lparr>typing_display := ''flex'', send_disabled := True\<rparr>\<rparr>"

definition hideTyping :: "chatbot \<Rightarrow> chatbot" where
  "hideTyping c =
     c\<lparr>isTyping := False,
       elements := (elements c)\<lparr>typing_display := ''none'', send_disabled := False\<rparr>\<rparr>"

definition showNotification :: "chatbot \<Rightarrow> chatbot" where
  "showNotification c = c\<lparr>elements := (elements c)\<lparr>notification_display := ''block''\<rparr>\<rparr>"

definition hideNotification :: "chatbot \<Rightarrow> chatbot" where
  "hideNotification c = c\<lparr>elements := (elements c)\<lparr>notification_display := ''none''\<rparr>\<rparr>"

definition start_apology :: string where
  "start_apology =
     ''Sorry, I encountered an error starting our conversation. Please try refreshing the page.''"

definition message_apology :: string where
  "message_apology =
     ''Sorry, I encountered an error processing your message. Please try again.''"

definition handoff_text :: string where
  "handoff_text =
     ''Perfect! I have all the information I need. Our property finding team will now search for investments that match your criteria. You should hear from us soon with some exciting opportunities!''"

definition startSession_call :: "chatbot \<Rightarrow> chatbot" where
  \<comment> \<open>\<open>startSession\<close> up to its \<open>await fetch\<close>.\<close>
  "startSession_call c =
     c\<lparr>sent := sent c @
         [\<lparr>url = apiBaseUrl c @ ''/chat/start'', http_method = ''POST'',
           content_type = ''application/json'', payload = EmptyObject\<rparr>],
       awaiting := awaiting c @ [StartCall]\<rparr>"

definition startSession_resume :: "fetch_result \<Rightarrow> chatbot \<Rightarrow> chatbot" where
  \<comment> \<open>\<open>startSession\<close> from the end of the fetch; the last line of each case is the
      \<open>catch\<close> block.\<close>
  "startSession_resume r c =
     (case r of
        Response True (Some data) \<Rightarrow>
          (let c1 = c\<lparr>sessionId := session_id data\<rparr>
           in case addMessage ''assistant'' (message data) c1 of
                Some c2 \<Rightarrow> c2
              | None \<Rightarrow> append_message ''assistant'' start_apology c1)
      | _ \<Rightarrow> append_message ''assistant'' start_apology c)"

definition closeChat :: "chatbot \<Rightarrow> chatbot" where
  "closeChat c =
     c\<lparr>isOpen := False,
       elements := (elements c)\<lparr>toggle_active := False, window_visible := False\<rparr>,
       timers := timers c @ [HideWindow]\<rparr>"

definition openChat :: "chatbot \<Rightarrow> chatbot" where
  "openChat c =
     (let c1 = hideNotification
                 (c\<lparr>isOpen := True,
                    elements := (elements c)\<lparr>toggle_active := True, window_hidden := False\<rparr>\<rparr>);
          c2 = c1\<lparr>timers := timers c1 @ [ShowWindow]\<rparr>
      in if \<not> truthy (sessionId c2) then startSession_call c2 else c2)"

definition toggleChat :: "chatbot \<Rightarrow> chatbot" where
  "toggleChat c = (if isOpen c then closeChat c else openChat c)"

definition js_whitespace :: "char \<Rightarrow> bool" where
  "js_whitespace ch = ((of_char ch :: nat) \<in> {0x09, 0x0A, 0x0B, 0x0C, 0x0D, 0x20, 0xA0})"

definition trim :: "string \<Rightarrow> string" where
  "trim s = rev (dropWhile js_whitespace (rev (dropWhile js_whitespace s)))"

definition sendMessage_call :: "chatbot \<Rightarrow> chatbot" where
  \<comment> \<open>\<open>sendMessage\<close> up to its \<open>await fetch\<close>, or to its early return.\<close>
  "sendMessage_call c =
     (let text = trim (input_value (elements c))
      in if text = [] \<or> isTyping c then c
         else
           (let c1 = append_message ''user'' text c;
                c2 = c1\<lparr>elements := (elements c1)\<lparr>input_value := []\<rparr>\<rparr>;
                c3 = showTyping c2
            in c3\<lparr>sent := sent c3 @
                   [\<lparr>url = apiBaseUrl c3 @ ''/chat/message'', http_method = ''POST'',
                     content_type = ''application/json'',
                     payload = MessageObject (sessionId c3) text\<rparr>],
                 awaiting := awaiting c3 @ [MessageCall]\<rparr>))"

definition sendMessage_catch :: "chatbot \<Rightarrow> chatbot" where
  "sendMessage_catch c = append_message ''assistant'' message_apology (hideTyping c)"

definition sendMessage_resume :: "fetch_result \<Rightarrow> chatbot \<Rightarrow> chatbot" where
  \<comment> \<open>\<open>sendMessage\<close> from the end of the fetch.\<close>
  "sendMessage_resume r c =
     (case r of
        Response True (Some data) \<Rightarrow>
          (let c1 = hideTyping c
           in case addMessage ''assistant'' (message data) c1 of
                None \<Rightarrow> sendMessage_catch c1
              | Some c2 \<Rightarrow>
                  if truthy (completed data) \<and> truthy (preferences_collected data)
                  then c2\<lparr>timers := timers c2 @ [Handoff]\<rparr>
                  else c2)
      | _ \<Rightarrow> sendMessage_catch c)"

fun fire :: "timer \<Rightarrow> chatbot \<Rightarrow> chatbot" where
  \<comment> \<open>The callbacks given to \<open>setTimeout\<close>.\<close>
  "fire ShowWindow c = c\<lparr>elements := (elements c)\<lparr>window_visible := True\<rparr>\<rparr>"
| "fire HideWindow c = c\<lparr>elements := (elements c)\<lparr>window_hidden := True\<rparr>\<rparr>"
| "fire Handoff c = append_message ''assistant'' handoff_text c"
| "fire Notify c = (if \<not> isOpen c then showNotification c else c)"

fun resume :: "call \<Rightarrow> fetch_result \<Rightarrow> chatbot \<Rightarrow> chatbot" where
  "resume StartCall r c = startSession_resume r c"
| "resume MessageCall r c = sendMessage_resume r c"

text \<open>
  What can happen to the widget: the bound listeners, the user editing the input, a
  fetch ending, a timeout expiring. A click on the send button reaches its listener
  only while the button is enabled, a fetch can end only while its call is suspended,
  and a timeout can expire only while it is pending.
\<close>

datatype chat_event =
    ClickToggle
  | ClickMinimize
  | ClickSend
  | KeyPress string bool
  | EditInput string
  | FetchEnds call fetch_result
  | Timeout timer

fun chat_step :: "chat_event \<Rightarrow> chatbot \<Rightarrow> chatbot" where
  "chat_step ClickToggle c = toggleChat c"
| "chat_step ClickMinimize c = closeChat c"
| "chat_step ClickSend c = (if send_disabled (elements c) then c else sendMessage_call c)"
| "chat_step (KeyPress key shiftKey) c =
     (if key = ''Enter'' \<and> \<not> shiftKey then sendMessage_call c else c)"
| "chat_step (EditInput v) c = c\<lparr>elements := (elements c)\<lparr>input_value := v\<rparr>\<rparr>"
| "chat_step (FetchEnds k r) c =
     (if k \<in> set (awaiting c) then resume k r (c\<lparr>awaiting := remove1 k (awaiting c)\<rparr>) else c)"
| "chat_step (Timeout t) c =
     (if t \<in> set (timers c) then fire t (c\<lparr>timers := remove1 t (timers c)\<rparr>) else c)"

fun chat_run :: "chat_event list \<Rightarrow> chatbot \<Rightarrow> chatbot" where
  "chat_run [] c = c"
| "chat_run (e # es) c = chat_run es (chat_step e c)"


text \<open>The invariant of the request log: the base URL is the local one, and so was the
  address of every request sent.\<close>

definition local_only :: "chatbot \<Rightarrow> bool" where
  "local_only c \<longleftrightarrow>
     apiBaseUrl c = ''http://localhost:8001'' \<and>
     list_all (\<lambda>q. url q = ''http://localhost:8001/chat/start'' \<or>
                    url q = ''http://localhost:8001/chat/message'') (sent c)"


section \<open>Sample data\<close>

text \<open>
  A browser, a small document and a widget for the concrete runs below. The browser
  prints native functions the way V8 does, and reads the text of an attribute selector
  as it stands when it has no quote, backslash or line break (it rejects the others,
  which no run below uses).
\<close>

definition native_function_text :: "string \<Rightarrow> string" where
  "native_function_text k =
     (if k = ''__proto__'' then ''[object Object]''
      else if k = ''constructor'' then ''function Object() { [native code] }''
      else ''function '' @ k @ ''() { [native code] }'')"

definition plain_attribute_value :: "string \<Rightarrow> string option" where
  "plain_attribute_value s =
     (if list_ex (\<lambda>ch. (of_char ch :: nat) \<in> {0x0A, 0x0C, 0x0D, 0x22, 0x5C}) s
      then None else Some s)"

definition sample_browser :: browser where
  "sample_browser =
     \<lparr>css_attribute_value = plain_attribute_value, native_text = native_function_text\<rparr>"

definition sample_document :: "element list" where
  \<comment> \<open>A navigation link to the marketplace, the home page (active) and the
      marketplace page.\<close>
  "sample_document =
     [\<lparr>element_id = None, classList = [''nav-link''],
       data_page = Some ''marketplace'', style_display = []\<rparr>,
      \<lparr>element_id = Some ''home-page'', classList = [''page'', ''active''],
       data_page = None, style_display = []\<rparr>,
      \<lparr>element_id = Some ''marketplace-page'', classList = [''page''],
       data_page = None, style_display = []\<rparr>]"

definition sample_router :: router where
  "sample_router =
     \<lparr>document = sample_document, currentPage = ''home'', lucide = False, icon_timers = 0\<rparr>"

definition sample_router_new :: router_new where
  "sample_router_new =
     \<lparr>new_document = sample_document, new_currentPage = Some ''home'', new_lucide = False,
      icons_created = 0, grid_renders = 0\<rparr>"

definition borderline_property :: Property where
  \<comment> \<open>A listing whose exact margin is 14.5.\<close>
  "borderline_property =
     \<lparr>pid = ''5'', address = ''9 Border Ln'', city = ''Austin'', state = ''TX'',
      zip_code = ''73301'', beds = 3, baths = 2, sqft = 1500, price = 250000,
      arv = 343500, rehabEstimate = 30000, days_on_market = 10, equityScore = 80,
      lat = 30.25, lng = - 97.75, needsWork = True, propertyType = SingleFamily\<rparr>"

definition sample_widget :: widget where
  \<comment> \<open>The widget before it is first opened.\<close>
  "sample_widget =
     \<lparr>toggle_active = False, window_hidden = True, window_visible = False, messages = [],
      input_value = [], send_disabled = False, typing_display = ''none'',
      notification_display = ''none''\<rparr>"

definition reply :: "jsval \<Rightarrow> jsval \<Rightarrow> chat_reply" where
  \<comment> \<open>A body with a session id and a message and no other field.\<close>
  "reply sid msg =
     \<lparr>session_id = sid, message = msg, completed = JUndefined,
      preferences_collected = JUndefined\<rparr>"


section \<open>Properties of the arithmetic\<close>

lemma bit_length_bounds:
  "0 < n \<Longrightarrow> 2 ^ (bit_length n - 1) \<le> n \<and> n < 2 ^ bit_length n"
proof (induction n rule: bit_length.induct)
  case (1 n)
  show ?case
  proof (cases "n div 2 = 0")
    case True
    with "1.prems" have "n = 1" by (simp add: div_eq_0_iff)
    then show ?thesis by (simp add: bit_length.simps)
  next
    case False
    then have pos: "0 < n div 2" by simp
    from "1.prems" have ne: "n \<noteq> 0" by simp
    from "1.IH" [OF ne pos]
    have lo: "2 ^ (bit_length (n div 2) - 1) \<le> n div 2"
      and hi: "n div 2 < 2 ^ bit_length (n div 2)" by simp_all
    have len: "bit_length n = Suc (bit_length (n div 2))"
      using ne by (simp add: bit_length.simps [of n])
    have bpos: "0 < bit_length (n div 2)"
      using pos by (simp add: bit_length.simps [of "n div 2"])
    have "2 ^ (bit_length n - 1) = 2 * 2 ^ (bit_length (n div 2) - 1)"
      using len bpos by (cases "bit_length (n div 2)") simp_all
    also have "\<dots> \<le> 2 * (n div 2)" using lo by simp
    also have "\<dots> \<le> n" by simp
    finally have a: "2 ^ (bit_length n - 1) \<le> n" .
    have "n < 2 * (n div 2) + 2" by arith
    also have "\<dots> \<le> 2 * 2 ^ bit_length (n div 2)" using hi by simp
    also have "\<dots> = 2 ^ bit_length n" using len by simp
    finally have b: "n < 2 ^ bit_length n" .
    from a b show ?thesis by simp
  qed
qed


lemma binary_exponent_bounds:
  assumes "0 < a"
  shows "2 powi binary_exponent a \<le> a \<and> a < 2 powi (binary_exponent a + 1)"
proof (cases "1 \<le> a")
  case True
  define n where "n = nat \<lfloor>a\<rfloor>"
  have n: "0 < n" using True by (simp add: n_def)
  have "(of_nat n :: rat) = of_int \<lfloor>a\<rfloor>"
    using True by (simp add: n_def)
  then have fl: "of_nat n \<le> a" "a < of_nat n + 1"
    using floor_correct [of a] by simp_all
  from bit_length_bounds [OF n]
  have lo: "2 ^ (bit_length n - 1) \<le> n" and hi: "n < 2 ^ bit_length n" by simp_all
  have bpos: "0 < bit_length n" using n by (simp add: bit_length.simps [of n])
  have e: "binary_exponent a = int (bit_length n - 1)"
    using True bpos by (simp add: binary_exponent_def n_def)
  have "(2::rat) ^ (bit_length n - 1) \<le> of_nat n"
    using lo by (metis of_nat_le_iff of_nat_numeral of_nat_power)
  with fl have "2 ^ (bit_length n - 1) \<le> a" by linarith
  then have a: "2 powi binary_exponent a \<le> a" by (simp add: e)
  have "n + 1 \<le> 2 ^ bit_length n" using hi by simp
  then have "(of_nat (n + 1) :: rat) \<le> 2 ^ bit_length n"
    by (metis of_nat_le_iff of_nat_numeral of_nat_power)
  with fl have "a < 2 ^ bit_length n" by simp
  moreover have "binary_exponent a + 1 = int (bit_length n)" using e bpos by simp
  ultimately have b: "a < 2 powi (binary_exponent a + 1)" by simp
  from a b show ?thesis ..
next
  case False
  define c where "c = \<lceil>1 / a\<rceil>"
  define n where "n = nat (c - 1)"
  from False assms have big: "1 < 1 / a" by simp
  then have c2: "2 \<le> c" unfolding c_def by (simp add: le_ceiling_iff)
  then have n: "0 < n" and nc: "int n = c - 1" by (simp_all add: n_def)
  have ce: "of_int c - 1 < 1 / a" "1 / a \<le> of_int c"
    unfolding c_def by (simp_all add: ceiling_correct)
  from bit_length_bounds [OF n]
  have lo: "2 ^ (bit_length n - 1) \<le> n" and hi: "n < 2 ^ bit_length n" by simp_all
  have bpos: "0 < bit_length n" using n by (simp add: bit_length.simps [of n])
  have e: "binary_exponent a = - int (bit_length n)"
    using False by (simp add: binary_exponent_def n_def c_def)
  have "n + 1 \<le> 2 ^ bit_length n" using hi by simp
  then have "(of_nat (n + 1) :: rat) \<le> 2 ^ bit_length n"
    by (metis of_nat_le_iff of_nat_numeral of_nat_power)
  moreover have "(of_nat (n + 1) :: rat) = of_int c"
    using nc by (metis add.commute diff_add_cancel of_int_of_nat_eq of_nat_Suc Suc_eq_plus1 of_int_add of_int_1)
  ultimately have "1 / a \<le> 2 ^ bit_length n" using ce by linarith
  then have "1 \<le> a * 2 ^ bit_length n" using assms by (simp add: field_simps)
  then have a: "2 powi binary_exponent a \<le> a"
    by (simp add: e power_int_minus field_simps)
  have "(2::rat) ^ (bit_length n - 1) \<le> of_nat n"
    using lo by (metis of_nat_le_iff of_nat_numeral of_nat_power)
  also have "(of_nat n :: rat) = of_int c - 1"
    using nc by (metis of_int_of_nat_eq of_int_diff of_int_1)
  finally have "2 ^ (bit_length n - 1) < 1 / a" using ce by linarith
  then have lt: "a * 2 ^ (bit_length n - 1) < 1" using assms by (simp add: field_simps)
  have "binary_exponent a + 1 = - int (bit_length n - 1)" using e bpos by simp
  then have "(2::rat) powi (binary_exponent a + 1) = 1 / 2 ^ (bit_length n - 1)"
    by (simp add: power_int_minus_divide)
  moreover have "a < 1 / 2 ^ (bit_length n - 1)"
    using lt by (simp add: pos_less_divide_eq)
  ultimately have b: "a < 2 powi (binary_exponent a + 1)" by (simp only:)
  from a b show ?thesis ..
qed

lemma binary_exponent_unique:
  assumes "0 < a" and "2 powi e \<le> a" and "a < 2 powi (e + 1)"
  shows "binary_exponent a = e"
proof -
  let ?b = "binary_exponent a"
  from binary_exponent_bounds [OF assms(1)]
  have lo: "2 powi ?b \<le> a" and hi: "a < 2 powi (?b + 1)" by simp_all
  have "\<not> ?b < e"
  proof
    assume "?b < e"
    then have "(2::rat) powi (?b + 1) \<le> 2 powi e"
      by (intro power_int_increasing) simp_all
    with hi assms(2) show False by simp
  qed
  moreover have "\<not> e < ?b"
  proof
    assume "e < ?b"
    then have "(2::rat) powi (e + 1) \<le> 2 powi ?b"
      by (intro power_int_increasing) simp_all
    with lo assms(3) show False by simp
  qed
  ultimately show ?thesis by simp
qed

lemma round_half_even_nearest:
  assumes "\<bar>m - of_int n\<bar> < 1 / 2"
  shows "round_half_even m = n"
proof -
  from assms have bounds: "of_int n - 1 / 2 < m" "m < of_int n + 1 / 2"
    unfolding abs_less_iff by linarith+
  show ?thesis
  proof (cases "of_int n \<le> m")
    case True
    with bounds have f: "\<lfloor>m\<rfloor> = n" by (simp add: floor_eq_iff)
    with bounds show ?thesis by (simp add: round_half_even_def Let_def)
  next
    case False
    with bounds have f: "\<lfloor>m\<rfloor> = n - 1" by (simp add: floor_eq_iff)
    with bounds False show ?thesis by (simp add: round_half_even_def Let_def)
  qed
qed

lemma round_half_even_tie:
  assumes "m = of_int n + 1 / 2"
  shows "round_half_even m = (if even n then n else n + 1)"
proof -
  have f: "\<lfloor>m\<rfloor> = n" using assms by (simp add: floor_eq_iff)
  show ?thesis using assms f by (simp add: round_half_even_def Let_def)
qed

lemma to_double_eq:
  assumes pos: "0 < x" and lo: "2 powi e \<le> x" and hi: "x < 2 powi (e + 1)"
    and normal: "- 1022 \<le> e"
    and near: "\<bar>x / 2 powi (e - 52) - of_int n\<bar> < 1 / 2"
    and y: "y = of_int n * 2 powi (e - 52)"
    and finite: "y < 2 ^ 1024"
  shows "to_double x = Num y"
proof -
  have e: "binary_exponent x = e"
    using pos lo hi by (rule binary_exponent_unique)
  have ax: "\<bar>x\<bar> = x" using pos by simp
  have q: "max (e - 52) (- 1074) = e - 52" using normal by simp
  have n: "round_half_even (x / 2 powi (e - 52)) = n"
    using near by (rule round_half_even_nearest)
  show ?thesis
    unfolding to_double_def Let_def ax e q n
    using pos finite by (simp add: y)
qed

lemma round_half_even_error: "\<bar>of_int (round_half_even m) - m\<bar> \<le> 1 / 2"
proof -
  have "of_int \<lfloor>m\<rfloor> \<le> m" and "m < of_int \<lfloor>m\<rfloor> + 1"
    using floor_correct [of m] by simp_all
  then show ?thesis
    unfolding round_half_even_def Let_def by (auto simp add: abs_le_iff)
qed

text \<open>
  The rounding is to nearest: a finite result is within half a unit in the last place of
  the exact number.
\<close>

lemma to_double_error:
  assumes "to_double x = Num y"
  shows "\<bar>y - x\<bar> \<le> 2 powi (max (binary_exponent \<bar>x\<bar> - 52) (- 1074)) / 2"
proof (cases "x = 0")
  case True
  with assms show ?thesis by (simp add: to_double_def)
next
  case False
  define q where "q = max (binary_exponent \<bar>x\<bar> - 52) (- 1074)"
  define n where "n = round_half_even (\<bar>x\<bar> / 2 powi q)"
  have qpos: "(0::rat) < 2 powi q" by simp
  from assms False have y: "y = (if 0 < x then of_int n * 2 powi q else - (of_int n * 2 powi q))"
    by (simp add: to_double_def Let_def q_def n_def split: if_splits)
  have "\<bar>of_int n - \<bar>x\<bar> / 2 powi q\<bar> \<le> 1 / 2"
    unfolding n_def by (rule round_half_even_error)
  then have "\<bar>of_int n - \<bar>x\<bar> / 2 powi q\<bar> * 2 powi q \<le> 1 / 2 * 2 powi q"
    using qpos by (simp only: mult_le_cancel_right_pos)
  moreover have "\<bar>of_int n - \<bar>x\<bar> / 2 powi q\<bar> * 2 powi q = \<bar>of_int n * 2 powi q - \<bar>x\<bar>\<bar>"
  proof -
    have "\<bar>of_int n - \<bar>x\<bar> / 2 powi q\<bar> * 2 powi q
            = \<bar>(of_int n - \<bar>x\<bar> / 2 powi q) * 2 powi q\<bar>"
      using qpos by (simp add: abs_mult)
    also have "(of_int n - \<bar>x\<bar> / 2 powi q) * 2 powi q = of_int n * 2 powi q - \<bar>x\<bar>"
      using qpos by (simp add: left_diff_distrib)
    finally show ?thesis .
  qed
  ultimately have near: "\<bar>of_int n * 2 powi q - \<bar>x\<bar>\<bar> \<le> 2 powi q / 2" by simp
  show ?thesis
  proof (cases "0 < x")
    case True
    with y near show ?thesis by (simp add: q_def)
  next
    case neg: False
    with False have "\<bar>x\<bar> = - x" by simp
    with y neg near have "\<bar>y - x\<bar> = \<bar>of_int n * 2 powi q - \<bar>x\<bar>\<bar>" by simp
    with near show ?thesis by (simp add: q_def)
  qed
qed

lemma js_div_finite: "y \<noteq> 0 \<Longrightarrow> js_div (Num x) (Num y) = to_double (x / y)"
  by simp

lemma literal_0_08: "to_double 0.08 = Num (5764607523034235 / 72057594037927936)"
  by (rule to_double_eq [where e = "- 4" and n = 5764607523034235]; simp)

text \<open>
  The margins of the four mock properties and of the borderline listing, operation by
  operation.
\<close>

lemma margin_mock_1:
  assumes "price p = 285000" and "rehabEstimate p = 45000" and "arv p = 365000"
  shows "calculateMargin p = Num 3"
proof -
  have s1: "js_add (Num 285000) (Num 45000) = Num 330000"
    by (simp only: js_add.simps) (rule to_double_eq [where e = "18" and n = 5669356830720000]; simp)
  have s2: "js_mul (Num 285000) (Num (5764607523034235 / 72057594037927936)) = Num 22800"
    by (simp only: js_mul.simps) (rule to_double_eq [where e = "14" and n = 6267216278323200]; simp)
  have s3: "js_add (Num 330000) (Num 22800) = Num 352800"
    by (simp only: js_add.simps) (rule to_double_eq [where e = "18" and n = 6061057848115200]; simp)
  have s4: "js_sub (Num 365000) (Num 352800) = Num 12200"
    by (simp only: js_sub.simps) (rule to_double_eq [where e = "13" and n = 6707020929433600]; simp)
  have s5: "js_div (Num 12200) (Num 352800) = Num (4983575097861229 / 144115188075855872)"
    by (subst js_div_finite) (simp, (rule to_double_eq [where e = "-5" and n = 4983575097861229]; simp))
  have s6: "js_mul (Num (4983575097861229 / 144115188075855872)) (Num 100) = Num (3893418045204085 / 1125899906842624)"
    by (simp only: js_mul.simps) (rule to_double_eq [where e = "1" and n = 7786836090408170]; simp)
  have s7: "Math_round (Num (3893418045204085 / 1125899906842624)) = Num 3"
    by (simp add: floor_eq_iff)
  show ?thesis
    unfolding calculateMargin_def Let_def assms literal_0_08 s1 s2 s3 s4 s5 s6 s7
    by (rule refl)
qed

lemma margin_mock_2:
  assumes "price p = 425000" and "rehabEstimate p = 28000" and "arv p = 520000"
  shows "calculateMargin p = Num 7"
proof -
  have s1: "js_add (Num 425000) (Num 28000) = Num 453000"
    by (simp only: js_add.simps) (rule to_double_eq [where e = "18" and n = 7782480740352000]; simp)
  have s2: "js_mul (Num 425000) (Num (5764607523034235 / 72057594037927936)) = Num 34000"
    by (simp only: js_mul.simps) (rule to_double_eq [where e = "15" and n = 4672924418048000]; simp)
  have s3: "js_add (Num 453000) (Num 34000) = Num 487000"
    by (simp only: js_add.simps) (rule to_double_eq [where e = "18" and n = 8366596292608000]; simp)
  have s4: "js_sub (Num 520000) (Num 487000) = Num 33000"
    by (simp only: js_sub.simps) (rule to_double_eq [where e = "15" and n = 4535485464576000]; simp)
  have s5: "js_div (Num 33000) (Num 487000) = Num (1220688194687691 / 18014398509481984)"
    by (subst js_div_finite) (simp, (rule to_double_eq [where e = "-4" and n = 4882752778750764]; simp))
  have s6: "js_mul (Num (1220688194687691 / 18014398509481984)) (Num 100) = Num (7629301216798069 / 1125899906842624)"
    by (simp only: js_mul.simps) (rule to_double_eq [where e = "2" and n = 7629301216798069]; simp)
  have s7: "Math_round (Num (7629301216798069 / 1125899906842624)) = Num 7"
    by (simp add: floor_eq_iff)
  show ?thesis
    unfolding calculateMargin_def Let_def assms literal_0_08 s1 s2 s3 s4 s5 s6 s7
    by (rule refl)
qed

lemma margin_mock_3:
  assumes "price p = 195000" and "rehabEstimate p = 52000" and "arv p = 285000"
  shows "calculateMargin p = Num 9"
proof -
  have s1: "js_add (Num 195000) (Num 52000) = Num 247000"
    by (simp only: js_add.simps) (rule to_double_eq [where e = "17" and n = 8486855376896000]; simp)
  have s2: "js_mul (Num 195000) (Num (5764607523034235 / 72057594037927936)) = Num 15600"
    by (simp only: js_mul.simps) (rule to_double_eq [where e = "13" and n = 8576190696652800]; simp)
  have s3: "js_add (Num 247000) (Num 15600) = Num 262600"
    by (simp only: js_add.simps) (rule to_double_eq [where e = "18" and n = 4511433647718400]; simp)
  have s4: "js_sub (Num 285000) (Num 262600) = Num 22400"
    by (simp only: js_sub.simps) (rule to_double_eq [where e = "14" and n = 6157265115545600]; simp)
  have s5: "js_div (Num 22400) (Num 262600) = Num (3073286569782151 / 36028797018963968)"
    by (subst js_div_finite) (simp, (rule to_double_eq [where e = "-4" and n = 6146573139564302]; simp))
  have s6: "js_mul (Num (3073286569782151 / 36028797018963968)) (Num 100) = Num (4802010265284611 / 562949953421312)"
    by (simp only: js_mul.simps) (rule to_double_eq [where e = "3" and n = 4802010265284611]; simp)
  have s7: "Math_round (Num (4802010265284611 / 562949953421312)) = Num 9"
    by (simp add: floor_eq_iff)
  show ?thesis
    unfolding calculateMargin_def Let_def assms literal_0_08 s1 s2 s3 s4 s5 s6 s7
    by (rule refl)
qed

lemma margin_mock_4:
  assumes "price p = 235000" and "rehabEstimate p = 35000" and "arv p = 315000"
  shows "calculateMargin p = Num 9"
proof -
  have s1: "js_add (Num 235000) (Num 35000) = Num 270000"
    by (simp only: js_add.simps) (rule to_double_eq [where e = "18" and n = 4638564679680000]; simp)
  have s2: "js_mul (Num 235000) (Num (5764607523034235 / 72057594037927936)) = Num 18800"
    by (simp only: js_mul.simps) (rule to_double_eq [where e = "14" and n = 5167704650547200]; simp)
  have s3: "js_add (Num 270000) (Num 18800) = Num 288800"
    by (simp only: js_add.simps) (rule to_double_eq [where e = "18" and n = 4961546220339200]; simp)
  have s4: "js_sub (Num 315000) (Num 288800) = Num 26200"
    by (simp only: js_sub.simps) (rule to_double_eq [where e = "14" and n = 7201801161932800]; simp)
  have s5: "js_div (Num 26200) (Num 288800) = Num (3268540449781357 / 36028797018963968)"
    by (subst js_div_finite) (simp, (rule to_double_eq [where e = "-4" and n = 6537080899562714]; simp))
  have s6: "js_mul (Num (3268540449781357 / 36028797018963968)) (Num 100) = Num (2553547226391685 / 281474976710656)"
    by (simp only: js_mul.simps) (rule to_double_eq [where e = "3" and n = 5107094452783370]; simp)
  have s7: "Math_round (Num (2553547226391685 / 281474976710656)) = Num 9"
    by (simp add: floor_eq_iff)
  show ?thesis
    unfolding calculateMargin_def Let_def assms literal_0_08 s1 s2 s3 s4 s5 s6 s7
    by (rule refl)
qed

lemma margin_borderline:
  assumes "price p = 250000" and "rehabEstimate p = 30000" and "arv p = 343500"
  shows "calculateMargin p = Num 14"
proof -
  have s1: "js_add (Num 250000) (Num 30000) = Num 280000"
    by (simp only: js_add.simps) (rule to_double_eq [where e = "18" and n = 4810363371520000]; simp)
  have s2: "js_mul (Num 250000) (Num (5764607523034235 / 72057594037927936)) = Num 20000"
    by (simp only: js_mul.simps) (rule to_double_eq [where e = "14" and n = 5497558138880000]; simp)
  have s3: "js_add (Num 280000) (Num 20000) = Num 300000"
    by (simp only: js_add.simps) (rule to_double_eq [where e = "18" and n = 5153960755200000]; simp)
  have s4: "js_sub (Num 343500) (Num 300000) = Num 43500"
    by (simp only: js_sub.simps) (rule to_double_eq [where e = "15" and n = 5978594476032000]; simp)
  have s5: "js_div (Num 43500) (Num 300000) = Num (5224175567749775 / 36028797018963968)"
    by (subst js_div_finite) (simp, (rule to_double_eq [where e = "-3" and n = 5224175567749775]; simp))
  have s6: "js_mul (Num (5224175567749775 / 36028797018963968)) (Num 100) = Num (8162774324609023 / 562949953421312)"
    by (simp only: js_mul.simps) (rule to_double_eq [where e = "3" and n = 8162774324609023]; simp)
  have s7: "Math_round (Num (8162774324609023 / 562949953421312)) = Num 14"
    by (simp add: floor_eq_iff)
  show ?thesis
    unfolding calculateMargin_def Let_def assms literal_0_08 s1 s2 s3 s4 s5 s6 s7
    by (rule refl)
qed

lemma total_cost_borderline:
  "js_add (js_add (Num 250000) (Num 30000)) (js_mul (Num 250000) (to_double 0.08)) = Num 300000"
proof -
  have s1: "js_add (Num 250000) (Num 30000) = Num 280000"
    by (simp only: js_add.simps) (rule to_double_eq [where e = "18" and n = 4810363371520000]; simp)
  have s2: "js_mul (Num 250000) (Num (5764607523034235 / 72057594037927936)) = Num 20000"
    by (simp only: js_mul.simps) (rule to_double_eq [where e = "14" and n = 5497558138880000]; simp)
  have s3: "js_add (Num 280000) (Num 20000) = Num 300000"
    by (simp only: js_add.simps) (rule to_double_eq [where e = "18" and n = 5153960755200000]; simp)
  show ?thesis unfolding literal_0_08 s1 s2 s3 by (rule refl)
qed

lemma claimed_margin_borderline:
  "Math_round (js_div (js_mul (Num 100) (js_sub (Num 343500) (Num 300000))) (Num 300000))
     = Num 15"
proof -
  have s4: "js_sub (Num 343500) (Num 300000) = Num 43500"
    by (simp only: js_sub.simps) (rule to_double_eq [where e = "15" and n = 5978594476032000]; simp)
  have s5: "js_mul (Num 100) (Num 43500) = Num 4350000"
    by (simp only: js_mul.simps) (rule to_double_eq [where e = "22" and n = 4670776934400000]; simp)
  have s6: "js_div (Num 4350000) (Num 300000) = Num (29 / 2)"
    by (subst js_div_finite) (simp, (rule to_double_eq [where e = "3" and n = 8162774324609024]; simp))
  have s7: "Math_round (Num (29 / 2)) = Num 15"
    by (simp add: floor_eq_iff)
  show ?thesis unfolding s4 s5 s6 s7 by (rule refl)
qed


section \<open>Properties of the marketplace page\<close>

lemma handle_properties: "properties (handle e m) = properties m"
  by (cases e) (simp_all add: handleSaveProperty_def Let_def)

lemma run_properties: "properties (run es m) = properties m"
  by (induction es arbitrary: m) (simp_all add: handle_properties)

text \<open>
  C5. The page's \<open>properties\<close> cell starts as \<open>mockProperties\<close>, an array of four
  properties all in Texas, and whatever the user does on the page (any sequence of
  filter changes, sort choices, saves and resets) the cell still holds that array, so
  the cards rendered, \<open>filteredProperties\<close>, are always drawn from it.
\<close>

theorem marketplace_static_mock_data:
  "properties (mount store saved) = mockProperties \<and>
   properties (run es (mount store saved)) = mockProperties \<and>
   set (filteredProperties (run es (mount store saved))) \<subseteq> set mockProperties \<and>
   length mockProperties = 4 \<and>
   map state mockProperties = [''TX'', ''TX'', ''TX'', ''TX'']"
proof -
  have init: "properties (mount store saved) = mockProperties"
    by (simp add: mount_def)
  have kept: "properties (run es (mount store saved)) = mockProperties"
    by (simp add: run_properties init)
  have shown: "set (filteredProperties (run es (mount store saved))) \<subseteq> set mockProperties"
    by (simp add: filteredProperties_def kept)
  have four: "length mockProperties = 4"
    by (simp add: mockProperties_def)
  have texas: "map state mockProperties = [''TX'', ''TX'', ''TX'', ''TX'']"
    by (simp add: mockProperties_def)
  from init kept shown four texas show ?thesis by blast
qed

text \<open>
  C5 at a concrete session: after lowering the margin filter, choosing a sort order,
  saving a property and narrowing the price range, the cards shown are the mock
  properties 2, 3 and 4 and the cell is unchanged.
\<close>

theorem marketplace_static_mock_data_witness:
  "map pid (filteredProperties
     (run [SetMarginMin 5, SetSortBy ''margin'', ClickSave ''2'', SetPriceRange 0 500000]
        (mount Map.empty None))) = [''2'', ''3'', ''4'']
   \<and> properties
     (run [SetMarginMin 5, SetSortBy ''margin'', ClickSave ''2'', SetPriceRange 0 500000]
        (mount Map.empty None)) = mockProperties"
  using marketplace_static_mock_data
    [of Map.empty None
        "[SetMarginMin 5, SetSortBy ''margin'', ClickSave ''2'', SetPriceRange 0 500000]"]
  by (simp add: filteredProperties_def passes_filters_def mockProperties_def mount_def
      default_filters_def handleSaveProperty_def num_or_def Let_def
      margin_mock_1 margin_mock_2 margin_mock_3 margin_mock_4)

lemma num_or_cases:
  "num_or x d = (case x of None \<Rightarrow> d | Some v \<Rightarrow> if v = 0 then d else v)"
  by (simp add: num_or_def)

lemma num_or_zero: "num_or x 0 = (case x of None \<Rightarrow> 0 | Some v \<Rightarrow> v)"
  by (simp add: num_or_def split: option.splits)

lemma borderline_fields:
  "price borderline_property = 250000"
  "rehabEstimate borderline_property = 30000"
  "arv borderline_property = 343500"
  by (simp_all add: borderline_property_def)

text \<open>
  C8, as stated, fails, in both halves. For a listing priced 250,000 with a rehab
  estimate of 30,000 and an ARV of 343,500 the total cost is 300,000 and
  \<open>100 * (arv - totalCost) / totalCost\<close> is 14.5, which rounds to 15, whether it is taken
  exactly or computed in doubles in that order; the code divides first, gets
  14.499999999999998 from the doubles and returns 14. And with the price slider at
  [0, 0] the filter's \<open>priceMax\<close> is 0, which \<open>filters.priceMax || 1000000\<close> reads as
  1,000,000: the first mock property, priced 285,000, is shown although its price is
  above \<open>priceMax\<close>.
\<close>

theorem margin_and_ceiling_counterexample:
  "calculateMargin borderline_property = Num 14 \<and>
   round (100 * (arv borderline_property
                  - (price borderline_property + rehabEstimate borderline_property
                     + 0.08 * price borderline_property))
          / (price borderline_property + rehabEstimate borderline_property
             + 0.08 * price borderline_property)) = 15 \<and>
   Math_round
     (js_div
        (js_mul (Num 100)
           (js_sub (Num (arv borderline_property))
              (js_add (js_add (Num (price borderline_property))
                              (Num (rehabEstimate borderline_property)))
                      (js_mul (Num (price borderline_property)) (to_double 0.08)))))
        (js_add (js_add (Num (price borderline_property))
                        (Num (rehabEstimate borderline_property)))
                (js_mul (Num (price borderline_property)) (to_double 0.08)))) = Num 15 \<and>
   priceMax (filters (run [SetPriceRange 0 0, SetMarginMin 0] (mount Map.empty None))) = Some 0 \<and>
   hd mockProperties \<in>
     set (filteredProperties (run [SetPriceRange 0 0, SetMarginMin 0] (mount Map.empty None))) \<and>
   \<not> price (hd mockProperties) \<le> 0"
proof -
  have code: "calculateMargin borderline_property = Num 14"
    by (rule margin_borderline) (rule borderline_fields)+
  have exact: "round (100 * (arv borderline_property
                  - (price borderline_property + rehabEstimate borderline_property
                     + 0.08 * price borderline_property))
          / (price borderline_property + rehabEstimate borderline_property
             + 0.08 * price borderline_property)) = 15"
    unfolding borderline_fields by (simp add: round_def)
  have claimed: "Math_round
     (js_div
        (js_mul (Num 100)
           (js_sub (Num (arv borderline_property))
              (js_add (js_add (Num (price borderline_property))
                              (Num (rehabEstimate borderline_property)))
                      (js_mul (Num (price borderline_property)) (to_double 0.08)))))
        (js_add (js_add (Num (price borderline_property))
                        (Num (rehabEstimate borderline_property)))
                (js_mul (Num (price borderline_property)) (to_double 0.08)))) = Num 15"
    unfolding borderline_fields total_cost_borderline by (rule claimed_margin_borderline)
  have ceiling: "priceMax (filters (run [SetPriceRange 0 0, SetMarginMin 0]
        (mount Map.empty None))) = Some 0 \<and>
      hd mockProperties \<in>
        set (filteredProperties (run [SetPriceRange 0 0, SetMarginMin 0] (mount Map.empty None))) \<and>
      \<not> price (hd mockProperties) \<le> 0"
    by (simp add: filteredProperties_def passes_filters_def mockProperties_def mount_def
        default_filters_def num_or_def Let_def margin_mock_1)
  from code exact claimed ceiling show ?thesis by blast
qed

text \<open>
  C8, amended. The margin of a property is \<open>Math.round\<close> of
  \<open>((arv - totalCost) / totalCost) * 100\<close> with
  \<open>totalCost = price + rehabEstimate + price * 0.08\<close>, computed in doubles in the order
  the code writes, each operation rounded to the nearest double (within half a unit in
  the last place of the exact result). A property is in \<open>filteredProperties\<close> exactly
  when it is in \<open>properties\<close>, its state equals the state filter, its price is at least
  \<open>priceMin\<close> (0 when unset) and at most \<open>priceMax\<close>, where an unset or zero \<open>priceMax\<close>
  counts as 1,000,000, it has at least the minimum beds when that filter is set and not
  zero, it has the filter's property type when that is set and not empty, it matches
  \<open>needsWork\<close> when that is set, its margin is at least \<open>marginMin\<close> (0 when unset), and
  its days on market are at most \<open>daysOnMarketMax\<close>, where unset or zero counts as 90.
\<close>

theorem marketplace_margin_and_filter:
  "(let totalCost = js_add (js_add (Num (price p)) (Num (rehabEstimate p)))
                           (js_mul (Num (price p)) (to_double 0.08))
    in calculateMargin p
         = Math_round (js_mul (js_div (js_sub (Num (arv p)) totalCost) totalCost) (Num 100))) \<and>
   (to_double x = Num y \<longrightarrow>
      \<bar>y - x\<bar> \<le> 2 powi (max (binary_exponent \<bar>x\<bar> - 52) (- 1074)) / 2) \<and>
   (p \<in> set (filteredProperties m) \<longleftrightarrow>
      p \<in> set (properties m) \<and>
      state p = flt_state (filters m) \<and>
      (case priceMin (filters m) of None \<Rightarrow> 0 | Some lo \<Rightarrow> lo) \<le> price p \<and>
      price p \<le> (case priceMax (filters m) of None \<Rightarrow> 1000000
                   | Some hi \<Rightarrow> if hi = 0 then 1000000 else hi) \<and>
      (case flt_beds (filters m) of None \<Rightarrow> True | Some b \<Rightarrow> b = 0 \<or> b \<le> beds p) \<and>
      (case flt_propertyType (filters m) of None \<Rightarrow> True
       | Some t \<Rightarrow> t = [] \<or> property_type_text (propertyType p) = t) \<and>
      (case flt_needsWork (filters m) of None \<Rightarrow> True | Some w \<Rightarrow> needsWork p = w) \<and>
      js_ge (calculateMargin p) (case marginMin (filters m) of None \<Rightarrow> 0 | Some v \<Rightarrow> v) \<and>
      days_on_market p \<le> (case daysOnMarketMax (filters m) of None \<Rightarrow> 90
                            | Some d \<Rightarrow> if d = 0 then 90 else d))"
proof -
  have margin: "let totalCost = js_add (js_add (Num (price p)) (Num (rehabEstimate p)))
                           (js_mul (Num (price p)) (to_double 0.08))
    in calculateMargin p
         = Math_round (js_mul (js_div (js_sub (Num (arv p)) totalCost) totalCost) (Num 100))"
    unfolding calculateMargin_def Let_def by (rule refl)
  have nearest: "to_double x = Num y \<longrightarrow>
      \<bar>y - x\<bar> \<le> 2 powi (max (binary_exponent \<bar>x\<bar> - 52) (- 1074)) / 2"
    using to_double_error by blast
  have shown: "p \<in> set (filteredProperties m) \<longleftrightarrow>
      p \<in> set (properties m) \<and> passes_filters (filters m) p"
    by (simp add: filteredProperties_def)
  have pass: "passes_filters (filters m) p \<longleftrightarrow>
      state p = flt_state (filters m) \<and>
      (case priceMin (filters m) of None \<Rightarrow> 0 | Some lo \<Rightarrow> lo) \<le> price p \<and>
      price p \<le> (case priceMax (filters m) of None \<Rightarrow> 1000000
                   | Some hi \<Rightarrow> if hi = 0 then 1000000 else hi) \<and>
      (case flt_beds (filters m) of None \<Rightarrow> True | Some b \<Rightarrow> b = 0 \<or> b \<le> beds p) \<and>
      (case flt_propertyType (filters m) of None \<Rightarrow> True
       | Some t \<Rightarrow> t = [] \<or> property_type_text (propertyType p) = t) \<and>
      (case flt_needsWork (filters m) of None \<Rightarrow> True | Some w \<Rightarrow> needsWork p = w) \<and>
      js_ge (calculateMargin p) (case marginMin (filters m) of None \<Rightarrow> 0 | Some v \<Rightarrow> v) \<and>
      days_on_market p \<le> (case daysOnMarketMax (filters m) of None \<Rightarrow> 90
                            | Some d \<Rightarrow> if d = 0 then 90 else d)"
    by (simp add: passes_filters_def Let_def num_or_zero num_or_cases [of _ 1000000]
        num_or_cases [of _ 90])
  from margin nearest shown pass show ?thesis by blast
qed

text \<open>
  C8, amended, at the second mock property with the margin filter lowered to 5: its
  total cost is 487,000, its margin 7, and it is shown; the literal 0.08 is rounded
  within half a unit in the last place; and the borderline listing has margin 14.
\<close>

theorem marketplace_margin_and_filter_witness:
  "calculateMargin (mockProperties ! 1) = Num 7 \<and>
   mockProperties ! 1 \<in> set (filteredProperties (handle (SetMarginMin 5) (mount Map.empty None))) \<and>
   to_double 0.08 = Num (5764607523034235 / 72057594037927936) \<and>
   \<bar>5764607523034235 / 72057594037927936 - (0.08 :: rat)\<bar> \<le> 2 powi (- 56) / 2 \<and>
   calculateMargin borderline_property = Num 14"
proof -
  have m2: "calculateMargin (mockProperties ! 1) = Num 7"
    by (rule margin_mock_2) (simp_all add: mockProperties_def)
  have shown: "mockProperties ! 1
      \<in> set (filteredProperties (handle (SetMarginMin 5) (mount Map.empty None)))"
    using marketplace_margin_and_filter
      [where p = "mockProperties ! 1" and m = "handle (SetMarginMin 5) (mount Map.empty None)"]
      m2
    by (simp add: mockProperties_def mount_def default_filters_def)
  have b: "calculateMargin borderline_property = Num 14"
    by (rule margin_borderline) (rule borderline_fields)+
  from m2 shown b literal_0_08 show ?thesis by simp
qed

lemma filter_differs_removeAll: "filter (\<lambda>j. j \<noteq> i) xs = removeAll i xs"
  by (induction xs) auto

lemma saved_after_toggle:
  "savedProperties (handleSaveProperty i m) =
     (if i \<in> set (savedProperties m) then removeAll i (savedProperties m)
      else savedProperties m @ [i])"
  by (simp add: handleSaveProperty_def Let_def filter_differs_removeAll)

lemma saved_after_two_toggles:
  "savedProperties (handleSaveProperty i (handleSaveProperty i m)) =
     (if i \<in> set (savedProperties m) then removeAll i (savedProperties m) @ [i]
      else savedProperties m)"
  by (simp add: saved_after_toggle)

text \<open>
  C9, as stated, fails. After saving properties 1 and 2 the list is [1, 2]; clicking
  save on property 1 twice more leaves [2, 1], not the original list.
\<close>

theorem save_twice_reorders_counterexample:
  "savedProperties (run [ClickSave ''1'', ClickSave ''2''] (mount Map.empty None)) = [''1'', ''2''] \<and>
   savedProperties (run [ClickSave ''1'', ClickSave ''2'', ClickSave ''1'', ClickSave ''1'']
      (mount Map.empty None)) = [''2'', ''1'']"
  by (simp add: handleSaveProperty_def mount_def Let_def)

text \<open>
  C9, amended. \<open>handleSaveProperty\<close> removes every occurrence of the id when it is in
  the saved list and appends it when it is not. Applying it twice with the same id
  restores the set of saved ids, and restores the list itself when the id was not in
  it. After every call the \<open>savedProperties\<close> item of \<open>localStorage\<close> is the JSON text
  of the updated list.
\<close>

theorem handleSaveProperty_toggle:
  "(i \<in> set (savedProperties m) \<longrightarrow>
      savedProperties (handleSaveProperty i m) = removeAll i (savedProperties m)) \<and>
   (i \<notin> set (savedProperties m) \<longrightarrow>
      savedProperties (handleSaveProperty i m) = savedProperties m @ [i]) \<and>
   set (savedProperties (handleSaveProperty i (handleSaveProperty i m))) = set (savedProperties m) \<and>
   (i \<notin> set (savedProperties m) \<longrightarrow>
      savedProperties (handleSaveProperty i (handleSaveProperty i m)) = savedProperties m) \<and>
   localStorage (handleSaveProperty i m) ''savedProperties'' =
      Some (JSON_stringify (savedProperties (handleSaveProperty i m)))"
proof -
  have twice: "set (savedProperties (handleSaveProperty i (handleSaveProperty i m)))
      = set (savedProperties m)"
    by (auto simp add: saved_after_two_toggles)
  have stored: "localStorage (handleSaveProperty i m) ''savedProperties'' =
      Some (JSON_stringify (savedProperties (handleSaveProperty i m)))"
    by (simp add: handleSaveProperty_def Let_def)
  from twice stored show ?thesis
    by (simp add: saved_after_toggle saved_after_two_toggles)
qed

text \<open>
  C9, amended, on the saved list [1, 2]: saving 3 appends it and stores the text
  \<open>["1","2","3"]\<close>, saving 3 twice gives [1, 2] back, and clicking save on 1 removes it.
\<close>

theorem handleSaveProperty_toggle_witness:
  \<open>savedProperties (handleSaveProperty ''3'' (mount Map.empty (Some [''1'', ''2''])))
     = [''1'', ''2'', ''3''] \<and>
   savedProperties (handleSaveProperty ''1'' (mount Map.empty (Some [''1'', ''2''])))
     = [''2''] \<and>
   savedProperties (handleSaveProperty ''3'' (handleSaveProperty ''3''
      (mount Map.empty (Some [''1'', ''2''])))) = [''1'', ''2''] \<and>
   localStorage (handleSaveProperty ''3'' (mount Map.empty (Some [''1'', ''2''])))
      ''savedProperties'' = Some ''["1","2","3"]''\<close>
  using handleSaveProperty_toggle [of "''3''" "mount Map.empty (Some [''1'', ''2''])"]
        handleSaveProperty_toggle [of "''1''" "mount Map.empty (Some [''1'', ''2''])"]
  by (simp add: mount_def JSON_stringify_def json_string_def json_escape_def Let_def)


section \<open>Properties of the agent-connect form\<close>

text \<open>
  C6. Submitting the lead form, whatever the form holds, prevents the default
  navigation and raises one toast, titled "Request submitted" and described "We'll
  connect you with a qualified agent within 24 hours."; no request is sent and the
  form data stay as they were.
\<close>

theorem handleSubmit_only_toasts:
  "fst (handleSubmit e a) = e\<lparr>defaultPrevented := True\<rparr> \<and>
   raised (snd (handleSubmit e a)) = raised a @
     [\<lparr>title = ''Request submitted'',
       description = ''We'll connect you with a qualified agent within 24 hours.''\<rparr>] \<and>
   requests (snd (handleSubmit e a)) = requests a \<and>
   formData (snd (handleSubmit e a)) = formData a"
  by (simp add: handleSubmit_def)


section \<open>Properties of the page routing\<close>


lemma has_class_remove [simp]:
  "has_class c (classList_remove a e) = (c \<noteq> a \<and> has_class c e)"
  by (auto simp add: has_class_def classList_remove_def)

lemma has_class_add [simp]:
  "has_class c (classList_add a e) = (c = a \<or> has_class c e)"
  by (auto simp add: has_class_def classList_add_def)

lemma element_id_remove [simp]: "element_id (classList_remove a e) = element_id e"
  by (simp add: classList_remove_def)

lemma length_for_each [simp]: "length (for_each_of_class c f doc) = length doc"
  by (simp add: for_each_of_class_def)

lemma nth_for_each:
  "j < length doc \<Longrightarrow>
   for_each_of_class c f doc ! j = (if has_class c (doc ! j) then f (doc ! j) else doc ! j)"
  by (simp add: for_each_of_class_def)

lemma first_index_bound: "first_index P xs = Some i \<Longrightarrow> i < length xs"
  by (induction xs arbitrary: i) (auto split: if_splits)

lemma first_index_map:
  "(\<And>x. P (f x) = P x) \<Longrightarrow> first_index P (map f xs) = first_index P xs"
  by (induction xs) simp_all

lemma getElementById_for_each:
  "(\<And>e. element_id (f e) = element_id e) \<Longrightarrow>
   getElementById t (for_each_of_class c f doc) = getElementById t doc"
  unfolding getElementById_def for_each_of_class_def
  by (simp add: first_index_map)

lemma getElementById_bound: "getElementById t doc = Some i \<Longrightarrow> i < length doc"
  by (auto simp add: getElementById_def first_index_bound split: if_splits)

lemma length_vanilla_showPage [simp]:
  "length (document (vanilla_showPage b pageId r)) = length (document r)"
  by (simp add: vanilla_showPage_def Let_def split: option.splits)

lemma vanilla_showPage_page:
  assumes j: "j < length (document r)"
    and page: "has_class ''page'' (document r ! j)"
    and nolink: "\<not> has_class ''nav-link'' (document r ! j)"
    and target: "getElementById (vanilla_target b pageId) (document r) = Some i"
  shows "has_class ''active'' (document (vanilla_showPage b pageId r) ! j) \<longleftrightarrow> j = i"
proof -
  define d1 where "d1 = for_each_of_class ''page'' (classList_remove ''active'') (document r)"
  define d2 where "d2 = d1[i := classList_add ''active'' (d1 ! i)]"
  define d3 where "d3 = for_each_of_class ''nav-link'' (classList_remove ''active'') d2"
  have i: "i < length (document r)"
    using target by (rule getElementById_bound)
  have found: "getElementById (vanilla_target b pageId) d1 = Some i"
    unfolding d1_def using target by (simp add: getElementById_for_each)
  have d1j: "d1 ! j = classList_remove ''active'' (document r ! j)"
    unfolding d1_def using j page by (simp add: nth_for_each)
  have d2j: "has_class ''active'' (d2 ! j) \<longleftrightarrow> j = i"
    unfolding d2_def using j i d1j by (simp add: d1_def nth_list_update)
  have d2link: "\<not> has_class ''nav-link'' (d2 ! j)"
    unfolding d2_def using j i d1j nolink by (simp add: d1_def nth_list_update)
  have d3j: "d3 ! j = d2 ! j"
    unfolding d3_def using j d2link by (simp add: nth_for_each d2_def d1_def)
  have len3: "length d3 = length (document r)"
    by (simp add: d3_def d2_def d1_def)
  have final: "document (vanilla_showPage b pageId r) = d3 \<or>
      (\<exists>k. has_class ''nav-link'' (d3 ! k) \<and>
           document (vanilla_showPage b pageId r) = d3[k := classList_add ''active'' (d3 ! k)])"
    unfolding vanilla_showPage_def Let_def
    using found by (auto simp add: d1_def d2_def d3_def split: option.splits)
  from final show ?thesis
  proof
    assume "document (vanilla_showPage b pageId r) = d3"
    with d3j d2j show ?thesis by simp
  next
    assume "\<exists>k. has_class ''nav-link'' (d3 ! k) \<and>
           document (vanilla_showPage b pageId r) = d3[k := classList_add ''active'' (d3 ! k)]"
    then obtain k where k: "has_class ''nav-link'' (d3 ! k)"
      and doc: "document (vanilla_showPage b pageId r) = d3[k := classList_add ''active'' (d3 ! k)]"
      by blast
    from k d3j d2link have "k \<noteq> j" by auto
    with doc d3j d2j show ?thesis by simp
  qed
qed

lemma vanilla_target_known:
  "pageId \<notin> set Object_prototype \<Longrightarrow>
   vanilla_target b pageId =
     (case map_of vanilla_pages pageId of Some v \<Rightarrow> v | None \<Rightarrow> ''home-page'')"
  by (simp add: vanilla_target_def property_get_def value_or_def vanilla_pages_def)

lemma vanilla_click_on_target:
  "data_page_path e = Some pageId # rest \<Longrightarrow>
   vanilla_click b e r = (e\<lparr>defaultPrevented := True\<rparr>, vanilla_showPage b pageId r)"
  by (simp add: vanilla_click_def)

lemma length_new_showPage [simp]:
  "length (new_document (new_showPage b pageId r)) = length (new_document r)"
  by (simp add: new_showPage_def renderProperties_def Let_def split: option.splits)

lemma new_document_renderProperties [simp]:
  "new_document (renderProperties r) = new_document r"
  by (simp add: renderProperties_def split: option.splits)

lemma new_showPage_page:
  assumes j: "j < length (new_document r)"
    and page: "has_class ''page'' (new_document r ! j)"
    and target: "getElementById (new_target b pageId) (new_document r) = Some i"
  shows "style_display (new_document (new_showPage b pageId r) ! j)
           = (if j = i then ''block'' else ''none'')"
proof -
  define d1 where
    "d1 = for_each_of_class ''page'' (\<lambda>e. e\<lparr>style_display := ''none''\<rparr>) (new_document r)"
  have i: "i < length (new_document r)"
    using target by (rule getElementById_bound)
  have found: "getElementById (new_target b pageId) d1 = Some i"
    unfolding d1_def using target by (simp add: getElementById_for_each)
  have d1j: "style_display (d1 ! j) = ''none''"
    unfolding d1_def using j page by (simp add: nth_for_each)
  have final: "new_document (new_showPage b pageId r)
                 = d1[i := (d1 ! i)\<lparr>style_display := ''block''\<rparr>]"
    unfolding new_showPage_def Let_def using found by (simp add: d1_def)
  show ?thesis
    unfolding final using j i d1j by (simp add: d1_def nth_list_update)
qed

lemma new_target_known:
  "key_text pageId \<notin> set Object_prototype \<Longrightarrow>
   new_target b pageId =
     (case map_of new_pages (key_text pageId) of Some v \<Rightarrow> v | None \<Rightarrow> ''home-page'')"
  by (simp add: new_target_def property_get_def value_or_def new_pages_def)

lemma vanilla_showPage_page_missing:
  assumes j: "j < length (document r)"
    and page: "has_class ''page'' (document r ! j)"
    and nolink: "\<not> has_class ''nav-link'' (document r ! j)"
    and target: "getElementById (vanilla_target b pageId) (document r) = None"
  shows "\<not> has_class ''active'' (document (vanilla_showPage b pageId r) ! j)"
proof -
  define d1 where "d1 = for_each_of_class ''page'' (classList_remove ''active'') (document r)"
  define d3 where "d3 = for_each_of_class ''nav-link'' (classList_remove ''active'') d1"
  have missing: "getElementById (vanilla_target b pageId) d1 = None"
    unfolding d1_def using target by (simp add: getElementById_for_each)
  have d1j: "d1 ! j = classList_remove ''active'' (document r ! j)"
    unfolding d1_def using j page by (simp add: nth_for_each)
  have d3j: "d3 ! j = d1 ! j"
    unfolding d3_def using j d1j nolink by (simp add: nth_for_each d1_def)
  have final: "document (vanilla_showPage b pageId r) = d3 \<or>
      (\<exists>k. has_class ''nav-link'' (d3 ! k) \<and>
           document (vanilla_showPage b pageId r) = d3[k := classList_add ''active'' (d3 ! k)])"
    unfolding vanilla_showPage_def Let_def
    using missing by (auto simp add: d1_def d3_def split: option.splits)
  from final show ?thesis
  proof
    assume "document (vanilla_showPage b pageId r) = d3"
    with d3j d1j show ?thesis by simp
  next
    assume "\<exists>k. has_class ''nav-link'' (d3 ! k) \<and>
           document (vanilla_showPage b pageId r) = d3[k := classList_add ''active'' (d3 ! k)]"
    then obtain k where k: "has_class ''nav-link'' (d3 ! k)"
      and doc: "document (vanilla_showPage b pageId r) = d3[k := classList_add ''active'' (d3 ! k)]"
      by blast
    from k d3j d1j nolink have "k \<noteq> j" by auto
    with doc d3j d1j show ?thesis by simp
  qed
qed

lemma vanilla_showPage_active:
  assumes "j < length (document r)"
    and "has_class ''page'' (document r ! j)"
    and "\<not> has_class ''nav-link'' (document r ! j)"
  shows "has_class ''active'' (document (vanilla_showPage b pageId r) ! j) \<longleftrightarrow>
         getElementById (vanilla_target b pageId) (document r) = Some j"
proof (cases "getElementById (vanilla_target b pageId) (document r)")
  case None
  with assms vanilla_showPage_page_missing [of j r b pageId] show ?thesis by simp
next
  case (Some i)
  with assms vanilla_showPage_page [of j r b pageId i] show ?thesis by auto
qed

lemma new_showPage_page_missing:
  assumes j: "j < length (new_document r)"
    and page: "has_class ''page'' (new_document r ! j)"
    and target: "getElementById (new_target b pageId) (new_document r) = None"
  shows "style_display (new_document (new_showPage b pageId r) ! j) = ''none''"
proof -
  define d1 where
    "d1 = for_each_of_class ''page'' (\<lambda>e. e\<lparr>style_display := ''none''\<rparr>) (new_document r)"
  have missing: "getElementById (new_target b pageId) d1 = None"
    unfolding d1_def using target by (simp add: getElementById_for_each)
  have final: "new_document (new_showPage b pageId r) = d1"
    unfolding new_showPage_def Let_def using missing by (simp add: d1_def)
  show ?thesis
    unfolding final using j page by (simp add: d1_def nth_for_each)
qed

lemma new_showPage_display:
  assumes "j < length (new_document r)" and "has_class ''page'' (new_document r ! j)"
  shows "style_display (new_document (new_showPage b pageId r) ! j)
           = (if getElementById (new_target b pageId) (new_document r) = Some j
              then ''block'' else ''none'')"
proof (cases "getElementById (new_target b pageId) (new_document r)")
  case None
  with assms new_showPage_page_missing [of j r b pageId] show ?thesis by simp
next
  case (Some i)
  with assms new_showPage_page [of j r b pageId i] show ?thesis by auto
qed

text \<open>
  C7, amended. In vanilla/script.js a click on an element that carries a \<open>data-page\<close>
  attribute prevents the default action and calls \<open>showPage\<close> with the attribute's
  value. For a value that is not the name of a member of \<open>Object.prototype\<close>, the
  target id is the one the pages map assigns to the value, and the home page id when
  the map has no entry for it. After \<open>showPage\<close> a page (an element of class \<open>page\<close>
  that is not a navigation link) is active exactly when it is the element the document
  has under the target id: all pages are deactivated, and the target is activated when
  the document has it. The \<open>showPage\<close> of vanilla/script_new.js chooses its target in
  the same way from its own map, and afterwards a page is displayed as a block when it
  is the element under the target id and not displayed otherwise.
\<close>

theorem showPage_routing:
  "(data_page_path e = Some pageId # rest \<longrightarrow>
      vanilla_click b e r = (e\<lparr>defaultPrevented := True\<rparr>, vanilla_showPage b pageId r)) \<and>
   (pageId \<notin> set Object_prototype \<longrightarrow>
      vanilla_target b pageId =
        (case map_of vanilla_pages pageId of Some v \<Rightarrow> v | None \<Rightarrow> ''home-page'')) \<and>
   (j < length (document r) \<and> has_class ''page'' (document r ! j) \<and>
    \<not> has_class ''nav-link'' (document r ! j) \<longrightarrow>
      (has_class ''active'' (document (vanilla_showPage b pageId r) ! j) \<longleftrightarrow>
       getElementById (vanilla_target b pageId) (document r) = Some j)) \<and>
   (key_text key \<notin> set Object_prototype \<longrightarrow>
      new_target b key =
        (case map_of new_pages (key_text key) of Some v \<Rightarrow> v | None \<Rightarrow> ''home-page'')) \<and>
   (j' < length (new_document n) \<and> has_class ''page'' (new_document n ! j') \<longrightarrow>
      style_display (new_document (new_showPage b key n) ! j')
        = (if getElementById (new_target b key) (new_document n) = Some j'
           then ''block'' else ''none''))"
  using vanilla_click_on_target [of e pageId rest b r]
        vanilla_target_known [of pageId b]
        vanilla_showPage_active [of j r b pageId]
        new_target_known [of key b]
        new_showPage_display [of j' n b key]
  by blast

text \<open>
  C7, amended, on the sample document: \<open>marketplace\<close> is routed to the marketplace
  page and the unknown \<open>contact\<close> to the home page, and each time the chosen page
  alone is active (in script_new.js, alone displayed).
\<close>

theorem showPage_routing_witness:
  "''marketplace'' \<notin> set Object_prototype \<and>
   vanilla_target sample_browser ''marketplace'' = ''marketplace-page'' \<and>
   vanilla_target sample_browser ''contact'' = ''home-page'' \<and>
   getElementById ''marketplace-page'' sample_document = Some 2 \<and>
   map (has_class ''page'') sample_document = [False, True, True] \<and>
   map (has_class ''nav-link'') sample_document = [True, False, False] \<and>
   map (has_class ''active'')
     (document (vanilla_showPage sample_browser ''marketplace'' sample_router))
     = [True, False, True] \<and>
   map (has_class ''active'')
     (document (vanilla_showPage sample_browser ''contact'' sample_router))
     = [False, True, False] \<and>
   fst (vanilla_click sample_browser
          \<lparr>defaultPrevented = False, data_page_path = [Some ''marketplace'', None]\<rparr>
          sample_router)
     = \<lparr>defaultPrevented = True, data_page_path = [Some ''marketplace'', None]\<rparr> \<and>
   new_target sample_browser (Some ''marketplace'') = ''marketplace-page'' \<and>
   map style_display
     (new_document (new_showPage sample_browser (Some ''marketplace'') sample_router_new))
     = [[], ''none'', ''block'']"
  using showPage_routing
    [of "\<lparr>defaultPrevented = False, data_page_path = [Some ''marketplace'', None]\<rparr>"
        "''marketplace''" "[None]" sample_browser sample_router 2
        "Some ''marketplace''" 2 sample_router_new]
  by (simp add: vanilla_showPage_def vanilla_target_def property_get_def value_or_def
      vanilla_pages_def Object_prototype_def sample_browser_def sample_router_def
      sample_document_def getElementById_def for_each_of_class_def has_class_def
      classList_add_def classList_remove_def plain_attribute_value_def Let_def
      vanilla_click_def new_showPage_def new_target_def new_pages_def key_text_def
      sample_router_new_def renderProperties_def)

text \<open>
  C7, as stated, fails. The pages map has no entry for \<open>constructor\<close>, but
  \<open>pages['constructor']\<close> is the function every object inherits and is truthy, so
  there is no fallback: no element has the function's text as id, and \<open>showPage\<close>
  leaves every page of the sample document inactive, the home page too. And on a
  document without a home page element the unknown value \<open>contact\<close> activates nothing:
  \<open>showPage\<close> activates the target only if it finds it.
\<close>

theorem inherited_name_counterexample:
  "map_of vanilla_pages ''constructor'' = None \<and>
   getElementById ''home-page'' sample_document = Some 1 \<and>
   map (has_class ''active'')
     (document (vanilla_showPage sample_browser ''constructor'' sample_router))
     = [False, False, False] \<and>
   getElementById ''home-page'' (tl (tl sample_document)) = None \<and>
   map (has_class ''active'')
     (document (vanilla_showPage sample_browser ''contact''
        (sample_router\<lparr>document := tl (tl sample_document)\<rparr>)))
     = [False]"
  by (simp add: vanilla_showPage_def vanilla_target_def property_get_def value_or_def
      vanilla_pages_def Object_prototype_def sample_browser_def sample_router_def
      sample_document_def getElementById_def for_each_of_class_def has_class_def
      classList_add_def classList_remove_def plain_attribute_value_def
      native_function_text_def Let_def)

lemma frontend_target_eq: "frontend_target b pageId = vanilla_target b pageId"
  by (simp add: frontend_target_def vanilla_target_def frontend_pages_def vanilla_pages_def)

lemma frontend_showPage_eq: "frontend_showPage b pageId r = vanilla_showPage b pageId r"
  by (simp add: frontend_showPage_def vanilla_showPage_def frontend_target_eq)

lemma frontend_pages_eq: "frontend_pages = vanilla_pages"
  by (simp add: frontend_pages_def vanilla_pages_def)

text \<open>
  C4, as stated, fails in its description of the common target. \<open>toString\<close> is not in
  either pages table, but \<open>pages['toString']\<close> is the inherited function and is truthy,
  so neither copy falls back: the target id both compute is the function's text, not
  the home page id, and both leave every page of the sample document inactive.
\<close>

theorem inherited_target_counterexample:
  "map_of frontend_pages ''toString'' = None \<and>
   map_of vanilla_pages ''toString'' = None \<and>
   frontend_target sample_browser ''toString'' = ''function toString() { [native code] }'' \<and>
   vanilla_target sample_browser ''toString'' = ''function toString() { [native code] }'' \<and>
   map (has_class ''active'')
     (document (frontend_showPage sample_browser ''toString'' sample_router))
     = [False, False, False]"
  by (simp add: frontend_showPage_def frontend_target_def vanilla_target_def property_get_def
      value_or_def frontend_pages_def vanilla_pages_def Object_prototype_def
      sample_browser_def sample_router_def sample_document_def getElementById_def
      for_each_of_class_def has_class_def classList_add_def classList_remove_def
      plain_attribute_value_def native_function_text_def Let_def)

text \<open>
  C4, amended. For every page identifier, and in every document, the \<open>showPage\<close> of
  frontend/script.js and the one of vanilla/script.js compute the same target element
  id and leave the same state. For an identifier that is not the name of a member of
  \<open>Object.prototype\<close> that id is the one the pages table assigns to it, and the home
  page id when the table has no entry for it. Afterwards a page (an element of class
  \<open>page\<close> that is not a navigation link) is active exactly when it is the element the
  document has under the target id: both copies activate that page, if the document
  has it, and deactivate all others.
\<close>

theorem showPage_copies_agree:
  "frontend_target b pageId = vanilla_target b pageId \<and>
   frontend_showPage b pageId r = vanilla_showPage b pageId r \<and>
   (pageId \<notin> set Object_prototype \<longrightarrow>
      frontend_target b pageId =
        (case map_of frontend_pages pageId of Some v \<Rightarrow> v | None \<Rightarrow> ''home-page'')) \<and>
   (j < length (document r) \<and> has_class ''page'' (document r ! j) \<and>
    \<not> has_class ''nav-link'' (document r ! j) \<longrightarrow>
      (has_class ''active'' (document (frontend_showPage b pageId r) ! j) \<longleftrightarrow>
       getElementById (frontend_target b pageId) (document r) = Some j))"
  using vanilla_target_known [of pageId b] vanilla_showPage_active [of j r b pageId]
  unfolding frontend_target_eq frontend_showPage_eq frontend_pages_eq
  by blast

text \<open>
  C4, amended, on the sample document: both copies route \<open>marketplace\<close> to the
  marketplace page and the unknown \<open>contact\<close> to the home page, deactivate the page that
  was active and activate the target.
\<close>

theorem showPage_copies_agree_witness:
  "''marketplace'' \<notin> set Object_prototype \<and> ''contact'' \<notin> set Object_prototype \<and>
   frontend_target sample_browser ''marketplace'' = ''marketplace-page'' \<and>
   frontend_target sample_browser ''contact'' = ''home-page'' \<and>
   map (has_class ''page'') sample_document = [False, True, True] \<and>
   map (has_class ''nav-link'') sample_document = [True, False, False] \<and>
   map (has_class ''active'') sample_document = [False, True, False] \<and>
   getElementById ''marketplace-page'' sample_document = Some 2 \<and>
   map (has_class ''active'')
     (document (frontend_showPage sample_browser ''marketplace'' sample_router))
     = [True, False, True] \<and>
   frontend_showPage sample_browser ''marketplace'' sample_router
     = vanilla_showPage sample_browser ''marketplace'' sample_router"
  using showPage_copies_agree [of sample_browser "''marketplace''" sample_router 2]
        showPage_copies_agree [of sample_browser "''contact''" sample_router 1]
  by (simp add: frontend_showPage_def vanilla_showPage_def frontend_target_def
      vanilla_target_def property_get_def value_or_def frontend_pages_def vanilla_pages_def
      Object_prototype_def sample_browser_def sample_router_def sample_document_def
      getElementById_def for_each_of_class_def has_class_def classList_add_def
      classList_remove_def plain_attribute_value_def Let_def)


section \<open>Properties of the chatbot widget\<close>

lemmas chat_defs =
  toggleChat_def openChat_def closeChat_def startSession_call_def startSession_resume_def
  sendMessage_call_def sendMessage_resume_def sendMessage_catch_def addMessage_def
  append_message_def showTyping_def hideTyping_def showNotification_def
  hideNotification_def

lemma apiBaseUrl_resume: "apiBaseUrl (resume k r c) = apiBaseUrl c"
  by (cases k)
     (auto simp add: chat_defs Let_def
        split: fetch_result.splits bool.splits option.splits jsval.splits)

lemma apiBaseUrl_fire: "apiBaseUrl (fire t c) = apiBaseUrl c"
  by (cases t) (simp_all add: chat_defs)

lemma apiBaseUrl_step: "apiBaseUrl (chat_step e c) = apiBaseUrl c"
  by (cases e) (simp_all add: apiBaseUrl_resume apiBaseUrl_fire chat_defs Let_def)

lemma apiBaseUrl_run: "apiBaseUrl (chat_run es c) = apiBaseUrl c"
  by (induction es arbitrary: c) (simp_all add: apiBaseUrl_step)

lemma apiBaseUrl_reachable:
  "apiBaseUrl (chat_run es (initializeChatbot w)) = ''http://localhost:8001''"
  by (simp add: apiBaseUrl_run initializeChatbot_def ChatbotManager_def)

lemma sendMessage_call_sends:
  assumes "trim (input_value (elements c)) \<noteq> []" and "\<not> isTyping c"
  shows "sent (sendMessage_call c) = sent c @
           [\<lparr>url = apiBaseUrl c @ ''/chat/message'', http_method = ''POST'',
             content_type = ''application/json'',
             payload = MessageObject (sessionId c) (trim (input_value (elements c)))\<rparr>]"
    and "messages (elements (sendMessage_call c)) =
           messages (elements c) @ [(''user'', trim (input_value (elements c)))]"
    and "MessageCall \<in> set (awaiting (sendMessage_call c))"
    and "isTyping (sendMessage_call c)"
  using assms by (simp_all add: chat_defs Let_def)

lemma sendMessage_call_guard:
  assumes "trim (input_value (elements c)) = [] \<or> isTyping c"
  shows "sendMessage_call c = c"
  using assms by (auto simp add: sendMessage_call_def Let_def)

lemma message_reply_appended:
  assumes "MessageCall \<in> set (awaiting c)" and "message d = JString s"
  shows "messages (elements (chat_step (FetchEnds MessageCall (Response True (Some d))) c))
           = messages (elements c) @ [(''assistant'', s)]"
  using assms by (simp add: chat_defs Let_def)

lemma openChat_starts:
  assumes "\<not> truthy (sessionId c)"
  shows "sent (openChat c) = sent c @
           [\<lparr>url = apiBaseUrl c @ ''/chat/start'', http_method = ''POST'',
             content_type = ''application/json'', payload = EmptyObject\<rparr>]"
    and "StartCall \<in> set (awaiting (openChat c))"
  using assms by (simp_all add: chat_defs Let_def)

lemma openChat_with_session:
  assumes "truthy (sessionId c)"
  shows "sent (openChat c) = sent c" and "awaiting (openChat c) = awaiting c"
  using assms by (simp_all add: chat_defs Let_def)

lemma start_reply_stored:
  assumes "StartCall \<in> set (awaiting c)"
  shows "sessionId (chat_step (FetchEnds StartCall (Response True (Some d))) c) = session_id d"
  using assms by (simp add: chat_defs Let_def split: jsval.splits)

lemma start_failure:
  assumes "r = Rejected \<or> r = Response False b"
  shows "sessionId (startSession_resume r c) = sessionId c"
    and "messages (elements (startSession_resume r c))
           = messages (elements c) @ [(''assistant'', start_apology)]"
  using assms by (auto simp add: chat_defs)

lemma message_failure:
  assumes "r = Rejected \<or> r = Response False b"
  shows "sessionId (sendMessage_resume r c) = sessionId c"
    and "messages (elements (sendMessage_resume r c))
           = messages (elements c) @ [(''assistant'', message_apology)]"
    and "\<not> isTyping (sendMessage_resume r c)"
    and "typing_display (elements (sendMessage_resume r c)) = ''none''"
    and "\<not> send_disabled (elements (sendMessage_resume r c))"
  using assms by (auto simp add: chat_defs)

lemma handoff_scheduled:
  assumes "MessageCall \<in> set (awaiting c)" and "message d = JString s"
    and "truthy (completed d)" and "truthy (preferences_collected d)"
  shows "Handoff \<in> set (timers (chat_step (FetchEnds MessageCall (Response True (Some d))) c))"
    and "messages (elements (chat_step (Timeout Handoff)
            (chat_step (FetchEnds MessageCall (Response True (Some d))) c)))
          = messages (elements c) @ [(''assistant'', s), (''assistant'', handoff_text)]"
  using assms by (simp_all add: chat_defs Let_def)



lemma sent_resume: "sent (resume k r c) = sent c"
  by (cases k)
     (auto simp add: chat_defs Let_def
        split: fetch_result.splits bool.splits option.splits jsval.splits)

lemma sent_fire: "sent (fire t c) = sent c"
  by (cases t) (simp_all add: chat_defs)

lemma local_only_step: "local_only c \<Longrightarrow> local_only (chat_step e c)"
  by (cases e)
     (auto simp add: local_only_def sent_resume sent_fire apiBaseUrl_resume apiBaseUrl_fire
        chat_defs Let_def)

lemma local_only_run: "local_only c \<Longrightarrow> local_only (chat_run es c)"
  by (induction es arbitrary: c) (simp_all add: local_only_step)

lemma local_only_reachable: "local_only (chat_run es (initializeChatbot w))"
  by (rule local_only_run) (simp add: local_only_def initializeChatbot_def ChatbotManager_def)

text \<open>
  C2, amended. In every state the widget can reach, each request it has sent went to
  http://localhost:8001/chat/start or to http://localhost:8001/chat/message. In such
  a state, \<open>sendMessage\<close> on an input that is not empty after trimming, while no reply
  is awaited, issues a POST to http://localhost:8001/chat/message with the body
  \<open>{session_id, message}\<close>; when that fetch ends with an ok response whose body has a
  string \<open>message\<close>, the message is appended to the transcript. Opening the chat while
  no session id is stored issues a POST to http://localhost:8001/chat/start; when that
  fetch ends with an ok response with a JSON body, the body's \<open>session_id\<close> is stored.
\<close>

theorem chatbot_calls_local_endpoint:
  "list_all (\<lambda>q. url q = ''http://localhost:8001/chat/start'' \<or>
                 url q = ''http://localhost:8001/chat/message'')
     (sent (chat_run es (initializeChatbot w))) \<and>
   (c = chat_run es (initializeChatbot w) \<and>
    trim (input_value (elements c)) \<noteq> [] \<and> \<not> isTyping c \<longrightarrow>
      sent (sendMessage_call c) = sent c @
        [\<lparr>url = ''http://localhost:8001/chat/message'', http_method = ''POST'',
          content_type = ''application/json'',
          payload = MessageObject (sessionId c) (trim (input_value (elements c)))\<rparr>] \<and>
      MessageCall \<in> set (awaiting (sendMessage_call c))) \<and>
   (MessageCall \<in> set (awaiting c') \<and> message d = JString s \<longrightarrow>
      messages (elements (chat_step (FetchEnds MessageCall (Response True (Some d))) c'))
        = messages (elements c') @ [(''assistant'', s)]) \<and>
   (c = chat_run es (initializeChatbot w) \<and> \<not> truthy (sessionId c) \<longrightarrow>
      sent (openChat c) = sent c @
        [\<lparr>url = ''http://localhost:8001/chat/start'', http_method = ''POST'',
          content_type = ''application/json'', payload = EmptyObject\<rparr>] \<and>
      StartCall \<in> set (awaiting (openChat c))) \<and>
   (StartCall \<in> set (awaiting c') \<longrightarrow>
      sessionId (chat_step (FetchEnds StartCall (Response True (Some d))) c') = session_id d)"
proof -
  have base: "apiBaseUrl (chat_run es (initializeChatbot w)) = ''http://localhost:8001''"
    by (rule apiBaseUrl_reachable)
  have only: "list_all (\<lambda>q. url q = ''http://localhost:8001/chat/start'' \<or>
                 url q = ''http://localhost:8001/chat/message'')
     (sent (chat_run es (initializeChatbot w)))"
    using local_only_reachable [of es w] by (simp add: local_only_def)
  have send: "sent (sendMessage_call c) = sent c @
        [\<lparr>url = ''http://localhost:8001/chat/message'', http_method = ''POST'',
          content_type = ''application/json'',
          payload = MessageObject (sessionId c) (trim (input_value (elements c)))\<rparr>] \<and>
      MessageCall \<in> set (awaiting (sendMessage_call c))"
    if "c = chat_run es (initializeChatbot w)"
      and "trim (input_value (elements c)) \<noteq> []" and "\<not> isTyping c"
    using that sendMessage_call_sends(1,3) [of c] base by simp
  have "open": "sent (openChat c) = sent c @
        [\<lparr>url = ''http://localhost:8001/chat/start'', http_method = ''POST'',
          content_type = ''application/json'', payload = EmptyObject\<rparr>] \<and>
      StartCall \<in> set (awaiting (openChat c))"
    if "c = chat_run es (initializeChatbot w)" and "\<not> truthy (sessionId c)"
    using that openChat_starts [of c] base by simp
  from only send "open" message_reply_appended [of c' d s] start_reply_stored [of c' d]
  show ?thesis by blast
qed

text \<open>
  C2, amended, in a session: the chat is opened and the session \<open>s1\<close> starts; the
  user sends " 3 bedrooms " and the backend answers.
\<close>

theorem chatbot_calls_local_endpoint_witness:
  "map url (sent (chat_run
      [ClickToggle,
       FetchEnds StartCall (Response True (Some (reply (JString ''s1'') (JString ''Hello'')))),
       EditInput '' 3 bedrooms '', ClickSend,
       FetchEnds MessageCall (Response True (Some (reply JUndefined (JString ''Which city?''))))]
      (initializeChatbot sample_widget)))
     = [''http://localhost:8001/chat/start'', ''http://localhost:8001/chat/message''] \<and>
   map payload (sent (chat_run
      [ClickToggle,
       FetchEnds StartCall (Response True (Some (reply (JString ''s1'') (JString ''Hello'')))),
       EditInput '' 3 bedrooms '', ClickSend,
       FetchEnds MessageCall (Response True (Some (reply JUndefined (JString ''Which city?''))))]
      (initializeChatbot sample_widget)))
     = [EmptyObject, MessageObject (JString ''s1'') ''3 bedrooms''] \<and>
   messages (elements (chat_run
      [ClickToggle,
       FetchEnds StartCall (Response True (Some (reply (JString ''s1'') (JString ''Hello'')))),
       EditInput '' 3 bedrooms '', ClickSend,
       FetchEnds MessageCall (Response True (Some (reply JUndefined (JString ''Which city?''))))]
      (initializeChatbot sample_widget)))
     = [(''assistant'', ''Hello''), (''user'', ''3 bedrooms''), (''assistant'', ''Which city?'')]"
  using chatbot_calls_local_endpoint
    [of "[ClickToggle,
          FetchEnds StartCall (Response True (Some (reply (JString ''s1'') (JString ''Hello'')))),
          EditInput '' 3 bedrooms '']" sample_widget]
  by (simp add: chat_defs initializeChatbot_def ChatbotManager_def sample_widget_def
      reply_def trim_def js_whitespace_def Let_def)

text \<open>
  C2, as stated, fails. A non-empty message sent while no reply is awaited is posted,
  but when the response is not ok its \<open>message\<close> field is never read: the transcript
  gets the apology instead.
\<close>

theorem error_reply_not_shown_counterexample:
  "messages (elements (chat_run
      [ClickToggle,
       FetchEnds StartCall (Response True (Some (reply (JString ''s1'') (JString ''Hello'')))),
       EditInput ''hi'', ClickSend,
       FetchEnds MessageCall (Response False (Some (reply JUndefined (JString ''Server busy''))))]
      (initializeChatbot sample_widget)))
     = [(''assistant'', ''Hello''), (''user'', ''hi''), (''assistant'', message_apology)] \<and>
   message_apology \<noteq> ''Server busy''"
  by (simp add: chat_defs initializeChatbot_def ChatbotManager_def sample_widget_def
      reply_def trim_def js_whitespace_def message_apology_def Let_def)



text \<open>
  C3, amended. A message that is not empty after trimming, submitted while no reply is
  awaited, is posted to the chat/message endpoint; a blank message, or one submitted
  while a reply is awaited, is not sent and changes nothing. When the fetch ends with
  an ok response whose body has a string \<open>message\<close> and truthy \<open>completed\<close> and
  \<open>preferences_collected\<close>, the widget appends the message and schedules the
  acknowledgement; when that timeout expires it appends the text saying that the
  property finding team will now search for matching investments.
\<close>

theorem preferences_sent_and_handoff:
  "(trim (input_value (elements c)) \<noteq> [] \<and> \<not> isTyping c \<longrightarrow>
      sent (sendMessage_call c) = sent c @
        [\<lparr>url = apiBaseUrl c @ ''/chat/message'', http_method = ''POST'',
          content_type = ''application/json'',
          payload = MessageObject (sessionId c) (trim (input_value (elements c)))\<rparr>]) \<and>
   (trim (input_value (elements c)) = [] \<or> isTyping c \<longrightarrow> sendMessage_call c = c) \<and>
   (MessageCall \<in> set (awaiting c) \<and> message d = JString s \<and>
    truthy (completed d) \<and> truthy (preferences_collected d) \<longrightarrow>
      Handoff \<in> set (timers (chat_step (FetchEnds MessageCall (Response True (Some d))) c)) \<and>
      messages (elements (chat_step (Timeout Handoff)
          (chat_step (FetchEnds MessageCall (Response True (Some d))) c)))
        = messages (elements c) @
            [(''assistant'', s),
             (''assistant'', ''Perfect! I have all the information I need. Our property finding team will now search for investments that match your criteria. You should hear from us soon with some exciting opportunities!'')])"
  using sendMessage_call_sends(1) [of c] sendMessage_call_guard [of c]
        handoff_scheduled [of c d s]
  unfolding handoff_text_def by blast

text \<open>
  C3, amended, in a session: the user's preference is posted, the backend reports the
  preferences collected, and after the timeout the acknowledgement is the last message.
\<close>

theorem preferences_sent_and_handoff_witness:
  "map payload (sent (chat_run
      [ClickToggle,
       FetchEnds StartCall (Response True (Some (reply (JString ''s1'') (JString ''Hello'')))),
       EditInput ''Austin, under 300k'', KeyPress ''Enter'' False,
       FetchEnds MessageCall (Response True (Some
         \<lparr>session_id = JUndefined, message = JString ''Thanks'', completed = JBool True,
          preferences_collected = JBool True\<rparr>)),
       Timeout Handoff]
      (initializeChatbot sample_widget)))
     = [EmptyObject, MessageObject (JString ''s1'') ''Austin, under 300k''] \<and>
   map fst (messages (elements (chat_run
      [ClickToggle,
       FetchEnds StartCall (Response True (Some (reply (JString ''s1'') (JString ''Hello'')))),
       EditInput ''Austin, under 300k'', KeyPress ''Enter'' False,
       FetchEnds MessageCall (Response True (Some
         \<lparr>session_id = JUndefined, message = JString ''Thanks'', completed = JBool True,
          preferences_collected = JBool True\<rparr>)),
       Timeout Handoff]
      (initializeChatbot sample_widget))))
     = [''assistant'', ''user'', ''assistant'', ''assistant''] \<and>
   snd (last (messages (elements (chat_run
      [ClickToggle,
       FetchEnds StartCall (Response True (Some (reply (JString ''s1'') (JString ''Hello'')))),
       EditInput ''Austin, under 300k'', KeyPress ''Enter'' False,
       FetchEnds MessageCall (Response True (Some
         \<lparr>session_id = JUndefined, message = JString ''Thanks'', completed = JBool True,
          preferences_collected = JBool True\<rparr>)),
       Timeout Handoff]
      (initializeChatbot sample_widget))))) = handoff_text"
  using preferences_sent_and_handoff
    [of "chat_run
      [ClickToggle,
       FetchEnds StartCall (Response True (Some (reply (JString ''s1'') (JString ''Hello'')))),
       EditInput ''Austin, under 300k'']
      (initializeChatbot sample_widget)"]
  by (simp add: chat_defs initializeChatbot_def ChatbotManager_def sample_widget_def
      reply_def trim_def js_whitespace_def Let_def)

text \<open>
  C3, as stated, fails. A preference entered and submitted with Enter while the reply
  to the previous message is still awaited is not transmitted: \<open>sendMessage\<close> returns
  at its guard, and the only message posted is the first.
\<close>

theorem preference_typed_while_waiting_counterexample:
  "map payload (sent (chat_run
      [ClickToggle,
       FetchEnds StartCall (Response True (Some (reply (JString ''s1'') (JString ''Hello'')))),
       EditInput ''hi'', ClickSend,
       EditInput ''3 bedrooms in Austin'', KeyPress ''Enter'' False,
       FetchEnds MessageCall (Response True (Some (reply JUndefined (JString ''Welcome''))))]
      (initializeChatbot sample_widget)))
     = [EmptyObject, MessageObject (JString ''s1'') ''hi'']"
  by (simp add: chat_defs initializeChatbot_def ChatbotManager_def sample_widget_def
      reply_def trim_def js_whitespace_def Let_def)

text \<open>
  C10. The widget's failure handling is as the claim says (lemmas \<open>start_failure\<close>,
  \<open>message_failure\<close>), and \<open>openChat\<close> starts no session once a truthy id is stored
  (lemma \<open>openChat_with_session\<close>). But the id is stored only when the reply
  arrives. Three clicks on the toggle before the first reply open the chat, close it
  and open it again with \<open>sessionId\<close> still \<open>null\<close>: two POSTs to chat/start are
  issued, both sessions are established, the second id overwrites the first and the
  greeting is shown twice.
\<close>

theorem start_race_two_sessions:
  "map url (sent (chat_run
      [ClickToggle, ClickToggle, ClickToggle,
       FetchEnds StartCall (Response True (Some (reply (JString ''A'') (JString ''Hello'')))),
       FetchEnds StartCall (Response True (Some (reply (JString ''B'') (JString ''Hello''))))]
      (initializeChatbot sample_widget)))
     = [''http://localhost:8001/chat/start'', ''http://localhost:8001/chat/start''] \<and>
   sessionId (chat_run
      [ClickToggle, ClickToggle, ClickToggle,
       FetchEnds StartCall (Response True (Some (reply (JString ''A'') (JString ''Hello''))))]
      (initializeChatbot sample_widget)) = JString ''A'' \<and>
   sessionId (chat_run
      [ClickToggle, ClickToggle, ClickToggle,
       FetchEnds StartCall (Response True (Some (reply (JString ''A'') (JString ''Hello'')))),
       FetchEnds StartCall (Response True (Some (reply (JString ''B'') (JString ''Hello''))))]
      (initializeChatbot sample_widget)) = JString ''B'' \<and>
   messages (elements (chat_run
      [ClickToggle, ClickToggle, ClickToggle,
       FetchEnds StartCall (Response True (Some (reply (JString ''A'') (JString ''Hello'')))),
       FetchEnds StartCall (Response True (Some (reply (JString ''B'') (JString ''Hello''))))]
      (initializeChatbot sample_widget)))
     = [(''assistant'', ''Hello''), (''assistant'', ''Hello'')]"
  by (simp add: chat_defs initializeChatbot_def ChatbotManager_def sample_widget_def
      reply_def Let_def)

end
